theory Spec2Isabelle
  imports Complex_Main
begin

section \<open>Numbers of the script\<close>

text \<open>
  \<^verbatim>\<open>train.py\<close> mixes Python numbers (the accumulators start as the Python
  integer \<open>0\<close>, the fallback counts are Python integers) with numpy scalars (the
  entries of a confusion matrix, the results of \<open>np.sum\<close>, \<open>np.mean\<close>,
  \<open>np.sqrt\<close>, the losses taken off the device). The two differ where the claims
  look: a division of two Python numbers by zero raises \<open>ZeroDivisionError\<close>,
  a numpy division by zero returns \<open>inf\<close> or \<open>nan\<close> with a warning.

  Finite floating-point values are idealised as real numbers (no rounding, no overflow,
  no negative zero); the non-finite values are kept apart.  64-bit numpy integers are
  idealised as unbounded integers: they count pixels.
\<close>

datatype py_error = ZeroDivisionError | ValueError | NameError string

datatype npfloat = Fin real | Inf bool | NaN
  \<comment> \<open>\<open>Inf True\<close> is \<open>+inf\<close>, \<open>Inf False\<close> is \<open>-inf\<close>\<close>

fun np_add :: "npfloat \<Rightarrow> npfloat \<Rightarrow> npfloat" where
  "np_add NaN _ = NaN"
| "np_add _ NaN = NaN"
| "np_add (Fin a) (Fin b) = Fin (a + b)"
| "np_add (Fin a) (Inf s) = Inf s"
| "np_add (Inf s) (Fin b) = Inf s"
| "np_add (Inf s) (Inf t) = (if s = t then Inf s else NaN)"

fun np_neg :: "npfloat \<Rightarrow> npfloat" where
  "np_neg (Fin a) = Fin (- a)"
| "np_neg (Inf s) = Inf (\<not> s)"
| "np_neg NaN = NaN"

definition np_sub :: "npfloat \<Rightarrow> npfloat \<Rightarrow> npfloat" where
  "np_sub a b = np_add a (np_neg b)"

fun np_mul :: "npfloat \<Rightarrow> npfloat \<Rightarrow> npfloat" where
  "np_mul NaN _ = NaN"
| "np_mul _ NaN = NaN"
| "np_mul (Fin a) (Fin b) = Fin (a * b)"
| "np_mul (Fin a) (Inf s) = (if a = 0 then NaN else Inf (s = (0 < a)))"
| "np_mul (Inf s) (Fin b) = (if b = 0 then NaN else Inf (s = (0 < b)))"
| "np_mul (Inf s) (Inf t) = Inf (s = t)"

text \<open>Division as numpy (IEEE) does it: it never raises.\<close>

fun np_div :: "npfloat \<Rightarrow> npfloat \<Rightarrow> npfloat" where
  "np_div NaN _ = NaN"
| "np_div _ NaN = NaN"
| "np_div (Fin a) (Fin b) =
     (if b \<noteq> 0 then Fin (a / b) else if a = 0 then NaN else Inf (0 < a))"
| "np_div (Fin a) (Inf s) = Fin 0"
| "np_div (Inf s) (Fin b) = Inf (s = (0 \<le> b))"
| "np_div (Inf s) (Inf t) = NaN"

fun np_sqrt :: "npfloat \<Rightarrow> npfloat" where
  "np_sqrt (Fin a) = (if a < 0 then NaN else Fin (sqrt a))"
| "np_sqrt (Inf s) = (if s then Inf True else NaN)"
| "np_sqrt NaN = NaN"

fun np_abs :: "npfloat \<Rightarrow> npfloat" where
  "np_abs (Fin a) = Fin \<bar>a\<bar>"
| "np_abs (Inf s) = Inf True"
| "np_abs NaN = NaN"

text \<open>Comparison: anything compared with \<open>nan\<close> is false.\<close>

fun np_less :: "npfloat \<Rightarrow> npfloat \<Rightarrow> bool" where
  "np_less (Fin a) (Fin b) = (a < b)"
| "np_less (Fin a) (Inf s) = s"
| "np_less (Inf s) (Fin b) = (\<not> s)"
| "np_less (Inf s) (Inf t) = (\<not> s \<and> t)"
| "np_less NaN _ = False"
| "np_less _ NaN = False"

fun is_finite :: "npfloat \<Rightarrow> bool" where
  "is_finite (Fin a) = True"
| "is_finite _ = False"

text \<open>\<open>np.sum\<close> of a one-dimensional array (exact summation).\<close>

definition np_sum :: "npfloat list \<Rightarrow> npfloat" where
  "np_sum xs = foldl np_add (Fin 0) xs"

text \<open>A dynamically typed number: Python \<open>int\<close> and \<open>float\<close>, numpy integer and float.\<close>

datatype pynum = PyInt int | PyFloat npfloat | NpInt int | NpFloat npfloat

fun is_np :: "pynum \<Rightarrow> bool" where
  "is_np (NpInt _) = True"
| "is_np (NpFloat _) = True"
| "is_np _ = False"

fun is_integer :: "pynum \<Rightarrow> bool" where
  "is_integer (PyInt _) = True"
| "is_integer (NpInt _) = True"
| "is_integer _ = False"

fun int_of :: "pynum \<Rightarrow> int" where
  "int_of (PyInt i) = i"
| "int_of (NpInt i) = i"
| "int_of _ = 0"

fun as_float :: "pynum \<Rightarrow> npfloat" where
  "as_float (PyInt i) = Fin (of_int i)"
| "as_float (NpInt i) = Fin (of_int i)"
| "as_float (PyFloat x) = x"
| "as_float (NpFloat x) = x"

definition mk_int :: "bool \<Rightarrow> int \<Rightarrow> pynum" where
  "mk_int np i = (if np then NpInt i else PyInt i)"

definition mk_float :: "bool \<Rightarrow> npfloat \<Rightarrow> pynum" where
  "mk_float np x = (if np then NpFloat x else PyFloat x)"

text \<open>\<open>a + b\<close> and \<open>a * b\<close>: a numpy operand makes the result a numpy scalar.\<close>

definition num_add :: "pynum \<Rightarrow> pynum \<Rightarrow> pynum" where
  "num_add a b =
     (if is_integer a \<and> is_integer b then mk_int (is_np a \<or> is_np b) (int_of a + int_of b)
      else mk_float (is_np a \<or> is_np b) (np_add (as_float a) (as_float b)))"

definition num_mul :: "pynum \<Rightarrow> pynum \<Rightarrow> pynum" where
  "num_mul a b =
     (if is_integer a \<and> is_integer b then mk_int (is_np a \<or> is_np b) (int_of a * int_of b)
      else mk_float (is_np a \<or> is_np b) (np_mul (as_float a) (as_float b)))"

text \<open>
  \<open>a / b\<close> (true division).  Two Python numbers: a zero divisor raises.  As soon as one
  operand is a numpy scalar the division is numpy's and returns \<open>inf\<close> or \<open>nan\<close>.
\<close>

definition num_truediv :: "pynum \<Rightarrow> pynum \<Rightarrow> py_error + pynum" where
  "num_truediv a b =
     (if \<not> is_np a \<and> \<not> is_np b \<and> as_float b = Fin 0 then Inl ZeroDivisionError
      else Inr (mk_float (is_np a \<or> is_np b) (np_div (as_float a) (as_float b))))"

text \<open>\<open>np.sqrt(a)\<close> always gives a numpy float.\<close>

definition num_sqrt :: "pynum \<Rightarrow> pynum" where
  "num_sqrt a = NpFloat (np_sqrt (as_float a))"

definition num_less :: "pynum \<Rightarrow> pynum \<Rightarrow> bool" where
  "num_less a b = np_less (as_float a) (as_float b)"

definition num_le :: "pynum \<Rightarrow> pynum \<Rightarrow> bool" where
  "num_le a b = (a = b \<or> num_less a b)"

text \<open>Sequencing of calls that may raise.\<close>

definition and_then :: "'e + 'a \<Rightarrow> ('a \<Rightarrow> 'e + 'b) \<Rightarrow> 'e + 'b" where
  "and_then r f = (case r of Inl e \<Rightarrow> Inl e | Inr v \<Rightarrow> f v)"

section \<open>Target normalisation (lines 209, 252, 324)\<close>

text \<open>
  \<^verbatim>\<open>mask3d = 2*(mask3d - min_scale)/(max_scale - min_scale)-1\<close>, on each element of
  the tensor.  \<open>min_scale\<close> and \<open>max_scale\<close> are Python numbers of the configuration.
\<close>

definition normalize_target :: "real \<Rightarrow> real \<Rightarrow> npfloat \<Rightarrow> npfloat" where
  "normalize_target lo hi x =
     np_sub (np_div (np_mul (Fin 2) (np_sub x (Fin lo))) (Fin (hi - lo)))
            (Fin 1)"

text \<open>Validation: \<^verbatim>\<open>out3d = ((out3d.ravel()+1)/2)*(max_scale-min_scale)+min_scale\<close>.\<close>

definition denormalize_val :: "real \<Rightarrow> real \<Rightarrow> npfloat \<Rightarrow> npfloat" where
  "denormalize_val lo hi y =
     np_add (np_mul (np_div (np_add y (Fin 1)) (Fin 2)) (Fin (hi - lo)))
            (Fin lo)"

text \<open>Test: \<^verbatim>\<open>out3d = (out3d + 1)*(max_scale - min_scale)/2 + min_scale\<close>.\<close>

definition denormalize_test :: "real \<Rightarrow> real \<Rightarrow> npfloat \<Rightarrow> npfloat" where
  "denormalize_test lo hi y =
     np_add (np_div (np_mul (np_add y (Fin 1)) (Fin (hi - lo))) (Fin 2))
            (Fin lo)"

section \<open>\<open>metric_mse\<close> (lines 45-51)\<close>

text \<open>
  \<open>inputs - targets\<close> on one-dimensional arrays: equal lengths subtract element by
  element, an array of one element is broadcast, anything else raises.
\<close>

definition arr_sub :: "npfloat list \<Rightarrow> npfloat list \<Rightarrow> py_error + npfloat list" where
  "arr_sub xs ys =
     (if length xs = length ys then Inr (map (\<lambda>(x, y). np_sub x y) (zip xs ys))
      else if length ys = 1 then Inr (map (\<lambda>x. np_sub x (hd ys)) xs)
      else if length xs = 1 then Inr (map (\<lambda>y. np_sub (hd xs) y) ys)
      else Inl ValueError)"

definition count_nonzero :: "npfloat list \<Rightarrow> nat" where
  "count_nonzero xs = length (filter (\<lambda>x. x \<noteq> Fin 0) xs)"

definition metric_mse :: "npfloat list \<Rightarrow> npfloat list \<Rightarrow> bool \<Rightarrow> py_error + npfloat" where
  "metric_mse inputs targets exclude_zeros =
     and_then (arr_sub inputs targets) (\<lambda>d.
       let loss = map (\<lambda>v. np_mul v v) d in
       if exclude_zeros then
         (let n_pixels = count_nonzero targets
          in Inr (np_div (np_sum loss) (Fin (real n_pixels))))
       else Inr (np_div (np_sum loss) (Fin (real (length loss)))))"

section \<open>Library calls of the metric engine\<close>

text \<open>
  \<^verbatim>\<open>metrics.confusion_matrix(y_true, y_pred).ravel()\<close> of scikit-learn: the labels
  are the sorted distinct values of both arrays, entry \<open>(i, j)\<close> counts the positions
  whose true label is the \<open>i\<close>-th and whose predicted label is the \<open>j\<close>-th one, and
  \<open>ravel\<close> lists the rows one after the other.  Arrays of different lengths are
  rejected.  The matrix is 2x2 exactly when two labels occur.
\<close>

definition confusion_matrix :: "nat list \<Rightarrow> nat list \<Rightarrow> py_error + nat list" where
  "confusion_matrix y_true y_pred =
     (if length y_true \<noteq> length y_pred then Inl ValueError
      else let labels = sort (remdups (y_true @ y_pred))
           in Inr (concat (map (\<lambda>a. map (\<lambda>b. length (filter (\<lambda>p. p = (a, b)) (zip y_true y_pred)))
                                       labels) labels)))"

text \<open>
  The regression metrics of scikit-learn check their arguments first: same length, at
  least one element, no \<open>nan\<close> or \<open>inf\<close>; otherwise they raise \<open>ValueError\<close>.
\<close>

definition sk_checked :: "npfloat list \<Rightarrow> npfloat list \<Rightarrow> bool" where
  "sk_checked y_true y_pred \<longleftrightarrow>
     length y_true = length y_pred \<and> y_true \<noteq> [] \<and> list_all is_finite y_true \<and> list_all is_finite y_pred"

definition abs_errors :: "npfloat list \<Rightarrow> npfloat list \<Rightarrow> npfloat list" where
  "abs_errors y_true y_pred = map (\<lambda>(t, p). np_abs (np_sub p t)) (zip y_true y_pred)"

definition np_maximum :: "npfloat \<Rightarrow> npfloat \<Rightarrow> npfloat" where
  "np_maximum a b = (if a = NaN \<or> b = NaN then NaN else if np_less a b then b else a)"

definition mean_absolute_error :: "npfloat list \<Rightarrow> npfloat list \<Rightarrow> py_error + npfloat" where
  "mean_absolute_error y_true y_pred =
     (if sk_checked y_true y_pred
      then Inr (np_div (np_sum (abs_errors y_true y_pred)) (Fin (real (length y_true))))
      else Inl ValueError)"

definition max_error_sk :: "npfloat list \<Rightarrow> npfloat list \<Rightarrow> py_error + npfloat" where
  "max_error_sk y_true y_pred =
     (if sk_checked y_true y_pred
      then Inr (foldl np_maximum (hd (abs_errors y_true y_pred)) (tl (abs_errors y_true y_pred)))
      else Inl ValueError)"

text \<open>\<^verbatim>\<open>np.abs(a).max()\<close>: the maximum of an empty array raises.\<close>

definition abs_max :: "npfloat list \<Rightarrow> py_error + npfloat" where
  "abs_max a = (case map np_abs a of [] \<Rightarrow> Inl ValueError | x # xs \<Rightarrow> Inr (foldl np_maximum x xs))"

section \<open>Data, collaborators and state\<close>

text \<open>
  One item of a dataset: the image pair and the two ground-truth masks, flattened.
  \<open>'x\<close> is the type of an image pair \<open>(t1, t2)\<close>.
\<close>

record 'x sample =
  images :: 'x
  mask2d :: "nat list"
  mask3d :: "npfloat list"

datatype net_mode = TrainMode | EvalMode

text \<open>
  What the script prints, writes to the statistics file, and the two mode switches of
  the network, in the order in which they happen.  The lines that show no value of
  the model (the timings, the learning rate of each parameter group, the progress
  bars) are left out.
\<close>

datatype event =
    CallTrain
  | CallEval
  | TrainStep int net_mode
  | Print string
  | Formatted string "pynum list"
  | Stats int "pynum list"
  | TestStats "pynum list"

text \<open>
  The values read from the configuration and the command line.
\<close>

record config =
  batch_size :: nat
  nepochs :: int
  min_scale :: real
  max_scale :: real
  lweight2d :: pynum
  lweight3d :: pynum
  res_cp :: string
  verbose :: bool

text \<open>
  The external collaborators, \<open>'p\<close> being the learnable state (parameters, optimizer
  and scheduler state):
  \<^item> \<open>fit\<close> is lines 211-220 on one training batch, whose 3D masks are already
    normalised: forward pass, the two criteria, backward pass and optimizer step; it
    returns the new state and the values of \<open>loss2d\<close> and \<open>loss3d\<close>;
  \<^item> \<open>predict\<close> is the forward pass of the metric engine on one item (the loaders
    of validation and test have batch size 1): the arg-max labels and the raw 3D
    output, both flattened;
  \<^item> \<open>lr_adjust\<close> is the scheduler step;
  \<^item> \<open>shuffled\<close> is the order in which the training loader visits the dataset in
    the given epoch.
  The network's mode is passed to the forward passes, which depend on it.
\<close>

record ('p, 'x) collab =
  fit :: "'p \<Rightarrow> net_mode \<Rightarrow> 'x sample list \<Rightarrow> 'p \<times> npfloat \<times> npfloat"
  predict :: "'p \<Rightarrow> net_mode \<Rightarrow> 'x \<Rightarrow> nat list \<times> npfloat list"
  lr_adjust :: "'p \<Rightarrow> 'p"
  shuffled :: "int \<Rightarrow> 'x sample list \<Rightarrow> 'x sample list"

text \<open>
  The mutable state of the run: the network, the two best-metric trackers, the
  checkpoint files of the output directory (by file name) and what happened so far.
\<close>

record 'p state =
  params :: 'p
  mode :: net_mode
  best2dmetric :: pynum
  best3dmetric :: pynum
  files :: "string \<Rightarrow> 'p option"
  trace :: "event list"

text \<open>A raise ends the run; it is kept with what had happened until then.\<close>

type_synonym failure = "py_error \<times> event list"

text \<open>A \<open>for\<close> loop whose body may raise.\<close>

fun for_each :: "('b \<Rightarrow> 'a \<Rightarrow> 'f + 'a) \<Rightarrow> 'b list \<Rightarrow> 'a \<Rightarrow> 'f + 'a" where
  "for_each body [] a = Inr a"
| "for_each body (b # bs) a =
     (case body b a of Inl f \<Rightarrow> Inl f | Inr a' \<Rightarrow> for_each body bs a')"

text \<open>\<open>range(a, b)\<close>.\<close>

definition py_range :: "int \<Rightarrow> int \<Rightarrow> int list" where
  "py_range a b = [a..b - 1]"

text \<open>
  The batches of \<^verbatim>\<open>DataLoader(dataset, batch_size=n)\<close> (\<open>drop_last\<close> is left at its
  default): consecutive groups of \<open>n\<close> items, the last one with what remains.  The
  loader refuses \<open>n = 0\<close> when it is built (line 132).
\<close>

definition batches_of :: "nat \<Rightarrow> 'a list \<Rightarrow> 'a list list" where
  "batches_of n xs = map (\<lambda>i. take n (drop (i * n) xs)) [0..<(length xs + n - 1) div n]"

section \<open>Training phase of an epoch (lines 197-231)\<close>

text \<open>One training batch, lines 205-223.\<close>

definition train_batch ::
  "('p, 'x) collab \<Rightarrow> config \<Rightarrow> int \<Rightarrow> 'x sample list \<Rightarrow> pynum \<times> pynum \<times> 'p state \<Rightarrow> pynum \<times> pynum \<times> 'p state" where
  "train_batch env cfg epoch b = (\<lambda>(tot_2d_loss, tot_3d_loss, st).
     let nb = map (\<lambda>s. s\<lparr>mask3d := map (normalize_target (min_scale cfg) (max_scale cfg)) (mask3d s)\<rparr>) b;
         (p', loss2d, loss3d) = fit env (params st) (mode st) nb
     in (num_add tot_2d_loss (num_mul (NpFloat loss2d) (PyInt (int (batch_size cfg)))),
         num_add tot_3d_loss (num_mul (NpFloat loss3d) (PyInt (int (batch_size cfg)))),
         st\<lparr>params := p', trace := trace st @ [TrainStep epoch (mode st)]\<rparr>))"

definition train_phase ::
  "('p, 'x) collab \<Rightarrow> config \<Rightarrow> 'x sample list \<Rightarrow> int \<Rightarrow> 'p state
     \<Rightarrow> failure + ((pynum \<times> pynum \<times> pynum) \<times> 'p state)" where
  "train_phase env cfg train_dataset epoch st =
     (let (tot_2d_loss, tot_3d_loss, st1) =
            foldl (\<lambda>a b. train_batch env cfg epoch b a) (PyInt 0, PyInt 0, st)
                  (batches_of (batch_size cfg) (shuffled env epoch train_dataset));
          len = PyInt (int (length train_dataset))
      in case num_truediv tot_2d_loss len of
           Inl e \<Rightarrow> Inl (e, trace st1)
         | Inr epoch_2d_loss \<Rightarrow>
        (case num_truediv tot_3d_loss len of
           Inl e \<Rightarrow> Inl (e, trace st1)
         | Inr epoch_3d_loss \<Rightarrow>
             let epoch_loss = num_add (num_mul (lweight2d cfg) epoch_2d_loss)
                                      (num_mul (lweight3d cfg) epoch_3d_loss)
             in Inr ((epoch_2d_loss, epoch_3d_loss, epoch_loss),
                     st1\<lparr>params := lr_adjust env (params st1),
                         trace := trace st1 @
                           [Formatted ''Training loss'' [epoch_loss, epoch_2d_loss, epoch_3d_loss]]\<rparr>)))"

section \<open>Metric engine (lines 236-278 and 307-355)\<close>

text \<open>
  Lines 254-258 and 326-330: the four counts are unpacked from the ravelled matrix,
  which needs exactly four entries; whatever is raised inside \<open>try\<close> is caught,
  the counts are the Python integers \<open>0\<close> and the message is printed.
\<close>

definition confusion_counts :: "nat list \<Rightarrow> nat list \<Rightarrow> (pynum \<times> pynum \<times> pynum \<times> pynum) \<times> event list" where
  "confusion_counts y_true y_pred =
     (case confusion_matrix y_true y_pred of
        Inr [tn, fp, fn, tp] \<Rightarrow> ((NpInt (int tn), NpInt (int fp), NpInt (int fn), NpInt (int tp)), [])
      | _ \<Rightarrow> ((PyInt 0, PyInt 0, PyInt 0, PyInt 0), [Print ''Only 0 mask'']))"

text \<open>The per-batch values of lines 260-264 and 332-336.\<close>

record measures =
  mean_ae :: pynum
  s_rmse1 :: pynum
  s_rmse2 :: pynum
  max_error :: pynum
  mask_max :: pynum

definition measure3d :: "npfloat list \<Rightarrow> npfloat list \<Rightarrow> py_error + measures" where
  "measure3d m3 out3d =
     and_then (mean_absolute_error m3 out3d) (\<lambda>a.
     and_then (metric_mse out3d m3 False) (\<lambda>r1.
     and_then (metric_mse out3d m3 True) (\<lambda>r2.
     and_then (max_error_sk m3 out3d) (\<lambda>me.
     and_then (abs_max m3) (\<lambda>mm.
       Inr \<lparr>mean_ae = NpFloat a, s_rmse1 = NpFloat r1, s_rmse2 = NpFloat r2,
            max_error = NpFloat me, mask_max = NpFloat mm\<rparr>)))))"

text \<open>The accumulators of a phase, lines 236-242 and 266-272.\<close>

record tally =
  TN :: pynum
  FP :: pynum
  FN :: pynum
  TP :: pynum
  mean_mae :: pynum
  rmse1 :: pynum
  rmse2 :: pynum

definition tally0 :: tally where
  "tally0 = \<lparr>TN = PyInt 0, FP = PyInt 0, FN = PyInt 0, TP = PyInt 0,
             mean_mae = PyInt 0, rmse1 = PyInt 0, rmse2 = PyInt 0\<rparr>"

definition add_measures :: "tally \<Rightarrow> pynum \<times> pynum \<times> pynum \<times> pynum \<Rightarrow> measures \<Rightarrow> tally" where
  "add_measures t cnt m = (case cnt of (tn, fp, fn, tp) \<Rightarrow>
     \<lparr>TN = num_add (TN t) tn, FP = num_add (FP t) fp, FN = num_add (FN t) fn,
      TP = num_add (TP t) tp, mean_mae = num_add (mean_mae t) (mean_ae m),
      rmse1 = num_add (rmse1 t) (s_rmse1 m), rmse2 = num_add (rmse2 t) (s_rmse2 m)\<rparr>)"

text \<open>One validation batch, lines 246-272.\<close>

definition valid_batch ::
  "('p, 'x) collab \<Rightarrow> config \<Rightarrow> 'p state \<Rightarrow> 'x sample \<Rightarrow> tally \<times> event list \<Rightarrow> failure + tally \<times> event list" where
  "valid_batch env cfg st s = (\<lambda>(t, lg).
     let (out2d, raw3d) = predict env (params st) (mode st) (images s);
         out3d = map (denormalize_val (min_scale cfg) (max_scale cfg)) raw3d;
         (cnt, said) = confusion_counts (mask2d s) out2d
     in case measure3d (mask3d s) out3d of
          Inl e \<Rightarrow> Inl (e, lg @ said)
        | Inr m \<Rightarrow> Inr (add_measures t cnt m, lg @ said))"

text \<open>
  The names bound by a batch of the test loop, and the look-up of the names an
  f-string mentions, from left to right.  No statement of the script binds
  \<open>s_rmse\<close>: the loops bind \<open>s_rmse1\<close> and \<open>s_rmse2\<close>.
\<close>

definition batch_names :: "pynum \<times> pynum \<times> pynum \<times> pynum \<Rightarrow> measures \<Rightarrow> (string \<times> pynum) list" where
  "batch_names cnt m = (case cnt of (tn, fp, fn, tp) \<Rightarrow>
     [(''tn'', tn), (''fp'', fp), (''fn'', fn), (''tp'', tp), (''mean_ae'', mean_ae m),
      (''s_rmse1'', s_rmse1 m), (''s_rmse2'', s_rmse2 m), (''max_error'', max_error m),
      (''mask_max'', mask_max m)])"

fun lookup_names :: "(string \<times> pynum) list \<Rightarrow> string list \<Rightarrow> py_error + pynum list" where
  "lookup_names ns [] = Inr []"
| "lookup_names ns (x # xs) =
     (case map_of ns x of
        None \<Rightarrow> Inl (NameError x)
      | Some v \<Rightarrow> and_then (lookup_names ns xs) (\<lambda>vs. Inr (v # vs)))"

text \<open>The verbose branch, lines 338-341.\<close>

definition verbose_report :: "(string \<times> pynum) list \<Rightarrow> failure + event list" where
  "verbose_report ns =
     (case lookup_names ns [''tn'', ''fn'', ''tp'', ''fp''] of
        Inl e \<Rightarrow> Inl (e, [Print ''''])
      | Inr vs \<Rightarrow>
          (case lookup_names ns [''mean_ae'', ''s_rmse'', ''max_error'', ''mask_max''] of
             Inl e \<Rightarrow> Inl (e, [Print '''', Formatted ''2D Val'' vs])
           | Inr ws \<Rightarrow> Inr [Print '''', Formatted ''2D Val'' vs, Formatted ''3D Val'' ws]))"

text \<open>One test batch, lines 317-349.\<close>

definition test_batch ::
  "('p, 'x) collab \<Rightarrow> config \<Rightarrow> 'p state \<Rightarrow> 'x sample \<Rightarrow> tally \<times> event list \<Rightarrow> failure + tally \<times> event list" where
  "test_batch env cfg st s = (\<lambda>(t, lg).
     let (out2d, raw3d) = predict env (params st) (mode st) (images s);
         out3d = map (denormalize_test (min_scale cfg) (max_scale cfg)) raw3d;
         (cnt, said) = confusion_counts (mask2d s) out2d
     in case measure3d (mask3d s) out3d of
          Inl e \<Rightarrow> Inl (e, lg @ said)
        | Inr m \<Rightarrow>
            if verbose cfg then
              (case verbose_report (batch_names cnt m) of
                 Inl (e, shown) \<Rightarrow> Inl (e, lg @ said @ shown)
               | Inr shown \<Rightarrow> Inr (add_measures t cnt m, lg @ said @ shown))
            else Inr (add_measures t cnt m, lg @ said))"

text \<open>The metrics at the end of a phase, lines 274-278 and 351-355.\<close>

record summary =
  F1 :: pynum
  IoU :: pynum
  meanMAE :: pynum
  RMSE1 :: pynum
  RMSE2 :: pynum

definition phase_end :: "tally \<Rightarrow> nat \<Rightarrow> py_error + summary" where
  "phase_end t len_loader =
     and_then (num_truediv (num_mul (PyInt 2) (TP t))
                           (num_add (num_add (num_mul (PyInt 2) (TP t)) (FN t)) (FP t))) (\<lambda>f1.
     and_then (num_truediv (TP t) (num_add (num_add (TP t) (FN t)) (FP t))) (\<lambda>iou.
     and_then (num_truediv (mean_mae t) (PyInt (int len_loader))) (\<lambda>mae.
     and_then (num_truediv (rmse1 t) (PyInt (int len_loader))) (\<lambda>r1.
     and_then (num_truediv (rmse2 t) (PyInt (int len_loader))) (\<lambda>r2.
       Inr \<lparr>F1 = f1, IoU = iou, meanMAE = mae, RMSE1 = num_sqrt r1, RMSE2 = num_sqrt r2\<rparr>)))))"

definition metrics_line :: "string \<Rightarrow> summary \<Rightarrow> event" where
  "metrics_line phase m =
     Formatted phase [num_mul (F1 m) (PyInt 100), num_mul (IoU m) (PyInt 100), meanMAE m, RMSE1 m, RMSE2 m]"

text \<open>\<open>net.train()\<close> and \<open>net.eval()\<close>.\<close>

definition net_train :: "'p state \<Rightarrow> 'p state" where
  "net_train st = st\<lparr>mode := TrainMode, trace := trace st @ [CallTrain]\<rparr>"

definition net_eval :: "'p state \<Rightarrow> 'p state" where
  "net_eval st = st\<lparr>mode := EvalMode, trace := trace st @ [CallEval]\<rparr>"

text \<open>The events that are output only; the others are the mode switches and the training steps.\<close>

fun is_output :: "event \<Rightarrow> bool" where
  "is_output CallTrain = False"
| "is_output CallEval = False"
| "is_output (TrainStep e m) = False"
| "is_output _ = True"

section \<open>Checkpoint decision (lines 282-290)\<close>

definition checkpoint_decision :: "summary \<Rightarrow> 'p state \<Rightarrow> 'p state" where
  "checkpoint_decision m st =
     (let st1 = (if num_less (best2dmetric st) (F1 m)
                 then st\<lparr>best2dmetric := F1 m,
                         files := (files st)(''2dbestnet.pth'' \<mapsto> params st),
                         trace := trace st @ [Print ''Best 2D model saved!'']\<rparr>
                 else st)
      in if num_less (RMSE2 m) (best3dmetric st1)
         then st1\<lparr>best3dmetric := RMSE2 m,
                  files := (files st1)(''3dbestnet.pth'' \<mapsto> params st1),
                  trace := trace st1 @ [Print ''Best 3D model saved!'']\<rparr>
         else st1)"

section \<open>Validation phase, epoch, run and test\<close>

text \<open>Lines 233-290.\<close>

definition validation_phase ::
  "('p, 'x) collab \<Rightarrow> config \<Rightarrow> 'x sample list \<Rightarrow> 'p state \<Rightarrow> failure + summary \<times> 'p state" where
  "validation_phase env cfg valid_dataset st =
     (let st1 = net_eval st
      in case for_each (valid_batch env cfg st1) valid_dataset (tally0, trace st1) of
           Inl f \<Rightarrow> Inl f
         | Inr (t, lg) \<Rightarrow>
             (case phase_end t (length valid_dataset) of
                Inl e \<Rightarrow> Inl (e, lg)
              | Inr m \<Rightarrow>
                  Inr (m, checkpoint_decision m
                            (st1\<lparr>trace := lg @ [metrics_line ''Validation metrics'' m]\<rparr>))))"

text \<open>The body of the epoch loop, lines 197-293.\<close>

definition epoch_body ::
  "('p, 'x) collab \<Rightarrow> config \<Rightarrow> 'x sample list \<Rightarrow> 'x sample list \<Rightarrow> int \<Rightarrow> 'p state \<Rightarrow> failure + 'p state" where
  "epoch_body env cfg train_dataset valid_dataset epoch st =
     (case train_phase env cfg train_dataset epoch st of
        Inl f \<Rightarrow> Inl f
      | Inr ((epoch_2d_loss, epoch_3d_loss, epoch_loss), st1) \<Rightarrow>
          (case validation_phase env cfg valid_dataset st1 of
             Inl f \<Rightarrow> Inl f
           | Inr (m, st2) \<Rightarrow>
               Inr (st2\<lparr>trace := trace st2 @
                         [Stats epoch [epoch_2d_loss, epoch_3d_loss, epoch_loss, RMSE1 m, RMSE2 m,
                                       num_mul (F1 m) (PyInt 100), num_mul (IoU m) (PyInt 100)]]\<rparr>)))"

text \<open>Lines 182-187: the checkpoint named by the restore tag is loaded when it exists.\<close>

definition restore_checkpoint :: "config \<Rightarrow> 'p state \<Rightarrow> 'p state" where
  "restore_checkpoint cfg st =
     (case files st (res_cp cfg @ ''bestnet.pth'') of
        Some p \<Rightarrow> st\<lparr>params := p, trace := trace st @ [Print ''Checkpoints successfully loaded!'']\<rparr>
      | None \<Rightarrow> st\<lparr>trace := trace st @ [Print ''No checkpoints founded'']\<rparr>)"

text \<open>
  Lines 182-297: restore, initialise the two trackers, \<open>net.train()\<close>, then the
  epoch loop \<^verbatim>\<open>for epoch in range(1, nepochs)\<close>.  The run starts from the freshly built
  network \<open>p0\<close> and the files \<open>fs0\<close> found in the output directory.
\<close>

definition start_state :: "config \<Rightarrow> 'p \<Rightarrow> (string \<Rightarrow> 'p option) \<Rightarrow> 'p state" where
  "start_state cfg p0 fs0 =
     (let st = restore_checkpoint cfg
                 \<lparr>params = p0, mode = TrainMode, best2dmetric = PyInt 0,
                  best3dmetric = PyInt 1000000, files = fs0, trace = []\<rparr>
      in net_train st)"

definition training_run ::
  "('p, 'x) collab \<Rightarrow> config \<Rightarrow> 'x sample list \<Rightarrow> 'x sample list \<Rightarrow> 'p \<Rightarrow> (string \<Rightarrow> 'p option)
     \<Rightarrow> failure + 'p state" where
  "training_run env cfg train_dataset valid_dataset p0 fs0 =
     for_each (epoch_body env cfg train_dataset valid_dataset) (py_range 1 (nepochs cfg))
              (start_state cfg p0 fs0)"

text \<open>Lines 299-361: the final test phase.\<close>

definition test_start :: "config \<Rightarrow> 'p state \<Rightarrow> 'p state" where
  "test_start cfg st =
     (let st1 = (case files st (res_cp cfg @ ''bestnet.pth'') of
                   Some p \<Rightarrow> st\<lparr>params := p, trace := trace st @ [Print ''Checkpoints correctly loaded'']\<rparr>
                 | None \<Rightarrow> st)
      in net_eval st1)"

definition test_phase ::
  "('p, 'x) collab \<Rightarrow> config \<Rightarrow> 'x sample list \<Rightarrow> 'p state \<Rightarrow> failure + summary \<times> 'p state" where
  "test_phase env cfg test_dataset st =
     (let st2 = test_start cfg st
      in case for_each (test_batch env cfg st2) test_dataset (tally0, trace st2) of
           Inl f \<Rightarrow> Inl f
         | Inr (t, lg) \<Rightarrow>
             (case phase_end t (length test_dataset) of
                Inl e \<Rightarrow> Inl (e, lg)
              | Inr m \<Rightarrow>
                  Inr (m, st2\<lparr>trace := lg @ [metrics_line ''Test metrics'' m,
                                TestStats [meanMAE m, RMSE1 m, RMSE2 m,
                                           num_mul (F1 m) (PyInt 100), num_mul (IoU m) (PyInt 100)]]\<rparr>)))"

text \<open>The \<open>except\<close> branch of lines 254-258 and 326-330 is taken.\<close>

definition takes_fallback :: "nat list \<Rightarrow> nat list \<Rightarrow> bool" where
  "takes_fallback y_true y_pred =
     (case confusion_matrix y_true y_pred of Inr [tn, fp, fn, tp] \<Rightarrow> False | _ \<Rightarrow> True)"

text \<open>The predictions of the metric engine on one item, as the two loops compute them.\<close>

definition out2d_of :: "('p, 'x) collab \<Rightarrow> 'p state \<Rightarrow> 'x sample \<Rightarrow> nat list" where
  "out2d_of env st s = fst (predict env (params st) (mode st) (images s))"

definition out3d_val :: "('p, 'x) collab \<Rightarrow> config \<Rightarrow> 'p state \<Rightarrow> 'x sample \<Rightarrow> npfloat list" where
  "out3d_val env cfg st s =
     map (denormalize_val (min_scale cfg) (max_scale cfg)) (snd (predict env (params st) (mode st) (images s)))"

definition out3d_test :: "('p, 'x) collab \<Rightarrow> config \<Rightarrow> 'p state \<Rightarrow> 'x sample \<Rightarrow> npfloat list" where
  "out3d_test env cfg st s =
     map (denormalize_test (min_scale cfg) (max_scale cfg)) (snd (predict env (params st) (mode st) (images s)))"

definition batch_counts :: "('p, 'x) collab \<Rightarrow> 'p state \<Rightarrow> 'x sample \<Rightarrow> pynum \<times> pynum \<times> pynum \<times> pynum" where
  "batch_counts env st s = fst (confusion_counts (mask2d s) (out2d_of env st s))"

text \<open>
  The closed forms of the specification for the metrics of a phase, on the summed
  counts and on the per-batch values of a phase of \<open>n\<close> batches.
\<close>

definition closed_F1 :: "int \<Rightarrow> int \<Rightarrow> int \<Rightarrow> npfloat" where
  "closed_F1 tp fn fp = np_div (Fin (of_int (2 * tp))) (Fin (of_int (2 * tp + fn + fp)))"

definition closed_IoU :: "int \<Rightarrow> int \<Rightarrow> int \<Rightarrow> npfloat" where
  "closed_IoU tp fn fp = np_div (Fin (of_int tp)) (Fin (of_int (tp + fn + fp)))"

definition closed_mean :: "npfloat list \<Rightarrow> nat \<Rightarrow> npfloat" where
  "closed_mean vs n = np_div (np_sum vs) (Fin (real n))"

definition closed_rmse :: "npfloat list \<Rightarrow> nat \<Rightarrow> npfloat" where
  "closed_rmse vs n = np_sqrt (np_div (np_sum vs) (Fin (real n)))"

definition tp_of :: "pynum \<times> pynum \<times> pynum \<times> pynum \<Rightarrow> int" where
  "tp_of c = (case c of (tn, fp, fn, tp) \<Rightarrow> int_of tp)"

definition fn_of :: "pynum \<times> pynum \<times> pynum \<times> pynum \<Rightarrow> int" where
  "fn_of c = (case c of (tn, fp, fn, tp) \<Rightarrow> int_of fn)"

definition fp_of :: "pynum \<times> pynum \<times> pynum \<times> pynum \<Rightarrow> int" where
  "fp_of c = (case c of (tn, fp, fn, tp) \<Rightarrow> int_of fp)"

text \<open>
  A summary agrees with the closed forms on the counts \<open>cs\<close> and the 3D values
  \<open>ms\<close> of the batches of a phase.
\<close>

definition agrees_with_closed_forms ::
  "summary \<Rightarrow> (pynum \<times> pynum \<times> pynum \<times> pynum) list \<Rightarrow> measures list \<Rightarrow> bool" where
  "agrees_with_closed_forms m cs ms \<longleftrightarrow>
     (let tp = sum_list (map tp_of cs); fn = sum_list (map fn_of cs); fp = sum_list (map fp_of cs);
          n = length ms
      in as_float (F1 m) = closed_F1 tp fn fp
       \<and> as_float (IoU m) = closed_IoU tp fn fp
       \<and> as_float (meanMAE m) = closed_mean (map (\<lambda>b. as_float (mean_ae b)) ms) n
       \<and> as_float (RMSE1 m) = closed_rmse (map (\<lambda>b. as_float (s_rmse1 b)) ms) n
       \<and> as_float (RMSE2 m) = closed_rmse (map (\<lambda>b. as_float (s_rmse2 b)) ms) n)"

text \<open>
  The average the specification asks for: each batch loss weighted by the size of its
  batch, divided by the number of samples.  The argument lists, for every batch, its
  loss and its size.
\<close>

definition size_weighted_average :: "(real \<times> nat) list \<Rightarrow> real" where
  "size_weighted_average bs = (\<Sum>(l, k)\<leftarrow>bs. l * real k) / real (\<Sum>(l, k)\<leftarrow>bs. k)"

definition outcome_trace :: "failure + 'p state \<Rightarrow> event list" where
  "outcome_trace r = (case r of Inl (e, lg) \<Rightarrow> lg | Inr st \<Rightarrow> trace st)"

section \<open>Example inputs\<close>

text \<open>
  A stub network whose prediction for an item is stored in the item itself, whose two
  losses are 1 on every batch and whose learnable state counts the optimizer steps; a configuration with two-item batches, three
  configured epochs and the scale \<open>[-10, 10]\<close>; an item where both classes occur and
  every height is off by 1; an item without any change, predicted as such.
\<close>

definition demo_env :: "(nat, nat list \<times> npfloat list) collab" where
  "demo_env = \<lparr>fit = (\<lambda>p m b. (Suc p, Fin 1, Fin 1)), predict = (\<lambda>p m x. x),
               lr_adjust = (\<lambda>p. p), shuffled = (\<lambda>e xs. xs)\<rparr>"

definition demo_cfg :: config where
  "demo_cfg = \<lparr>batch_size = 2, nepochs = 3, min_scale = - 10, max_scale = 10,
               lweight2d = PyFloat (Fin 1), lweight3d = PyFloat (Fin 1), res_cp = ''3d'',
               verbose = False\<rparr>"

definition changed_item :: "(nat list \<times> npfloat list) sample" where
  "changed_item =
     \<lparr>images = ([0, 1, 0, 1], [Fin (1 / 5), Fin (3 / 10), Fin (3 / 10), Fin (1 / 5)]),
      mask2d = [0, 1, 1, 0], mask3d = [Fin 1, Fin 2, Fin 2, Fin 1]\<rparr>"

definition unchanged_item :: "(nat list \<times> npfloat list) sample" where
  "unchanged_item =
     \<lparr>images = ([0, 0], [Fin 0, Fin 0]), mask2d = [0, 0], mask3d = [Fin 0, Fin 0]\<rparr>"


definition demo_start :: "nat state" where
  "demo_start = start_state demo_cfg 0 (\<lambda>f. None)"

section \<open>Properties\<close>

subsection \<open>Normalisation round trip\<close>

text \<open>
  Claim C4.  With \<open>max_scale \<noteq> min_scale\<close>, the inverse transform of the validation
  phase and the one of the test phase both undo the normalisation of the training
  targets, on every finite value (hence on every value of the range
  \<open>[min_scale, max_scale]\<close>): \<open>denormalize (normalize x) = x\<close>.  Floating-point
  rounding is idealised away, the equation is the exact one.
\<close>

theorem normalize_round_trip:
  assumes "hi \<noteq> lo"
  shows "denormalize_val lo hi (normalize_target lo hi (Fin x)) = Fin x
       \<and> denormalize_test lo hi (normalize_target lo hi (Fin x)) = Fin x"
  using assms
  by (simp add: normalize_target_def denormalize_val_def denormalize_test_def np_sub_def field_simps)

theorem normalize_round_trip_witness:
  "(10::real) \<noteq> -10
   \<and> denormalize_val (-10) 10 (normalize_target (-10) 10 (Fin 5)) = Fin 5
   \<and> denormalize_test (-10) 10 (normalize_target (-10) 10 (Fin 5)) = Fin 5"
proof -
  have h: "(10::real) \<noteq> -10" by simp
  show ?thesis using h normalize_round_trip [OF h, of 5] by simp
qed

subsection \<open>\<open>metric_mse\<close>\<close>

lemma np_div_zero_not_finite: "\<not> is_finite (np_div s (Fin 0))"
  by (cases s) auto

lemma count_nonzero_all_zero: "(\<forall>t\<in>set targets. t = Fin 0) \<Longrightarrow> count_nonzero targets = 0"
  by (simp add: count_nonzero_def)

lemma foldl_np_add_Fin: "foldl np_add (Fin a) (map Fin xs) = Fin (a + sum_list xs)"
  by (induction xs arbitrary: a) (simp_all add: add.assoc)

lemma np_sum_Fin: "np_sum (map Fin xs) = Fin (sum_list xs)"
  by (simp add: np_sum_def foldl_np_add_Fin)

text \<open>
  Claim C9.  With \<open>exclude_zeros\<close> the sum of the squared errors is divided by the
  number of non-zero targets without a guard: when every target is zero the divisor is
  zero and the function returns no finite number (\<open>nan\<close> or \<open>inf\<close>; it can only
  raise when the two arrays cannot be subtracted).  Without \<open>exclude_zeros\<close> it
  returns, for arrays of the same length, the sum of the squared errors divided by the
  number of elements, which for finite non-empty arrays is their mean squared error.
\<close>

theorem metric_mse_division:
  "((\<forall>t\<in>set targets. t = Fin 0) \<longrightarrow>
      (case metric_mse inputs targets True of
         Inl e \<Rightarrow> length inputs \<noteq> length targets
       | Inr v \<Rightarrow> \<not> is_finite v))
   \<and> (length inputs = length targets \<longrightarrow>
        metric_mse inputs targets False =
          Inr (np_div (np_sum (map (\<lambda>(i, t). np_mul (np_sub i t) (np_sub i t)) (zip inputs targets)))
                      (Fin (real (length targets)))))
   \<and> (length xs = length ys \<and> ys \<noteq> [] \<longrightarrow>
        metric_mse (map Fin xs) (map Fin ys) False =
          Inr (Fin ((\<Sum>(x, y)\<leftarrow>zip xs ys. (x - y)\<^sup>2) / real (length ys))))"
proof (intro conjI impI)
  assume z: "\<forall>t\<in>set targets. t = Fin 0"
  show "case metric_mse inputs targets True of
         Inl e \<Rightarrow> length inputs \<noteq> length targets
       | Inr v \<Rightarrow> \<not> is_finite v"
    by (auto simp: metric_mse_def and_then_def arr_sub_def count_nonzero_all_zero [OF z]
          np_div_zero_not_finite Let_def)
next
  assume "length inputs = length targets"
  then show "metric_mse inputs targets False =
          Inr (np_div (np_sum (map (\<lambda>(i, t). np_mul (np_sub i t) (np_sub i t)) (zip inputs targets)))
                      (Fin (real (length targets))))"
    by (simp add: metric_mse_def and_then_def arr_sub_def Let_def comp_def case_prod_unfold)
next
  assume a: "length xs = length ys \<and> ys \<noteq> []"
  have eq: "map (\<lambda>v. np_mul v v) (map (\<lambda>(x, y). np_sub x y) (zip (map Fin xs) (map Fin ys)))
      = map Fin (map (\<lambda>(x, y). (x - y)\<^sup>2) (zip xs ys))"
    by (simp add: zip_map_map np_sub_def case_prod_unfold power2_eq_square comp_def)
  show "metric_mse (map Fin xs) (map Fin ys) False =
          Inr (Fin ((\<Sum>(x, y)\<leftarrow>zip xs ys. (x - y)\<^sup>2) / real (length ys)))"
    using a unfolding metric_mse_def and_then_def arr_sub_def Let_def
    by (simp add: eq np_sum_Fin del: map_map)
qed

theorem metric_mse_division_witness:
  "count_nonzero [Fin 0, Fin 0] = 0
   \<and> length [Fin 1, Fin 2] = length [Fin 0, Fin 0 :: npfloat]
   \<and> metric_mse [Fin 1, Fin 2] [Fin 0, Fin 0] True = Inr (Inf True)
   \<and> metric_mse [Fin 0, Fin 0] [Fin 0, Fin 0] True = Inr NaN
   \<and> metric_mse [Fin 1, Fin 2] [Fin 0, Fin 0] False = Inr (Fin (5 / 2))"
proof -
  have z: "\<forall>t\<in>set [Fin 0, Fin 0]. t = Fin 0"
    by simp
  show ?thesis
    using z metric_mse_division [of "[Fin 0, Fin 0]" "[Fin 1, Fin 2]" "[1, 2]" "[0, 0]"]
    by (simp add: metric_mse_def and_then_def arr_sub_def count_nonzero_def np_sum_def np_sub_def)
qed

subsection \<open>The epoch loop\<close>

text \<open>
  Claim C1.  The loop is \<^verbatim>\<open>for epoch in range(1, nepochs)\<close>: the range has
  \<open>nepochs - 1\<close> elements, so a configured count of 1 trains no epoch at all (the run
  ends in its start state) and a configured count of 2 runs the body once, for epoch 1.
  The claimed \<open>n\<close> executions do not happen.
\<close>

theorem epoch_loop_one_short:
  "length (py_range 1 n) = nat (n - 1)
   \<and> training_run env (cfg\<lparr>nepochs := 1\<rparr>) tr va p0 fs0 = Inr (start_state (cfg\<lparr>nepochs := 1\<rparr>) p0 fs0)
   \<and> training_run env (cfg\<lparr>nepochs := 2\<rparr>) tr va p0 fs0 =
       epoch_body env (cfg\<lparr>nepochs := 2\<rparr>) tr va 1 (start_state (cfg\<lparr>nepochs := 2\<rparr>) p0 fs0)"
proof (intro conjI)
  show "length (py_range 1 n) = nat (n - 1)"
    by (simp add: py_range_def)
  show "training_run env (cfg\<lparr>nepochs := 1\<rparr>) tr va p0 fs0 = Inr (start_state (cfg\<lparr>nepochs := 1\<rparr>) p0 fs0)"
    by (simp add: training_run_def py_range_def)
  have "py_range 1 2 = [1]"
    by (simp add: py_range_def upto.simps)
  then show "training_run env (cfg\<lparr>nepochs := 2\<rparr>) tr va p0 fs0 =
       epoch_body env (cfg\<lparr>nepochs := 2\<rparr>) tr va 1 (start_state (cfg\<lparr>nepochs := 2\<rparr>) p0 fs0)"
    by (simp add: training_run_def split: sum.splits)
qed

subsection \<open>Epoch losses\<close>

lemma batches_3_2: "batches_of 2 [a, b, c] = [[a, b], [c]]"
  by (simp add: batches_of_def upt_rec)

text \<open>
  Claim C3.  Every batch loss is scaled by the configured \<open>batch_size\<close>, not by the
  size of the batch.  Three samples in batches of two (sizes 2 and 1), every batch loss
  being 1: the script reports \<open>(1*2 + 1*2)/3 = 4/3\<close> for both losses, where the
  size-weighted average is \<open>(1*2 + 1*1)/3 = 1\<close>.  The partial final batch is
  over-weighted.
\<close>

theorem epoch_loss_partial_batch:
  "train_phase \<lparr>fit = (\<lambda>p m b. (p, Fin 1, Fin 1)), predict = pr, lr_adjust = (\<lambda>p. p),
                shuffled = (\<lambda>e xs. xs)\<rparr>
               (cfg\<lparr>batch_size := 2, lweight2d := PyFloat (Fin 1), lweight3d := PyFloat (Fin 1)\<rparr>)
               [s1, s2, s3] epoch st
     = Inr ((NpFloat (Fin (4 / 3)), NpFloat (Fin (4 / 3)), NpFloat (Fin (8 / 3))),
            st\<lparr>trace := trace st @ [TrainStep epoch (mode st), TrainStep epoch (mode st),
                 Formatted ''Training loss'' [NpFloat (Fin (8 / 3)), NpFloat (Fin (4 / 3)), NpFloat (Fin (4 / 3))]]\<rparr>)
   \<and> size_weighted_average [(1, 2), (1, 1)] = 1"
  by (simp add: train_phase_def batches_3_2 train_batch_def num_add_def num_mul_def
        num_truediv_def mk_float_def mk_int_def size_weighted_average_def Let_def)

subsection \<open>Batches of the metric engine\<close>

lemma valid_batch_unfold:
  "valid_batch env cfg st s (t, lg) =
     (case measure3d (mask3d s) (out3d_val env cfg st s) of
        Inl e \<Rightarrow> Inl (e, lg @ snd (confusion_counts (mask2d s) (out2d_of env st s)))
      | Inr m \<Rightarrow> Inr (add_measures t (fst (confusion_counts (mask2d s) (out2d_of env st s))) m,
                     lg @ snd (confusion_counts (mask2d s) (out2d_of env st s))))"
  by (auto simp: valid_batch_def out3d_val_def out2d_of_def Let_def split: prod.splits sum.splits)

lemma test_batch_unfold:
  "\<not> verbose cfg \<Longrightarrow> test_batch env cfg st s (t, lg) =
     (case measure3d (mask3d s) (out3d_test env cfg st s) of
        Inl e \<Rightarrow> Inl (e, lg @ snd (confusion_counts (mask2d s) (out2d_of env st s)))
      | Inr m \<Rightarrow> Inr (add_measures t (fst (confusion_counts (mask2d s) (out2d_of env st s))) m,
                     lg @ snd (confusion_counts (mask2d s) (out2d_of env st s))))"
  by (auto simp: test_batch_def out3d_test_def out2d_of_def Let_def split: prod.splits sum.splits)

lemma fallback_counts:
  "takes_fallback y_true y_pred \<Longrightarrow>
     confusion_counts y_true y_pred = ((PyInt 0, PyInt 0, PyInt 0, PyInt 0), [Print ''Only 0 mask''])"
  by (auto simp: takes_fallback_def confusion_counts_def split: sum.splits list.splits)

lemma no_fallback_counts:
  "\<not> takes_fallback y_true y_pred \<Longrightarrow>
     \<exists>tn fp fn tp. confusion_matrix y_true y_pred = Inr [tn, fp, fn, tp] \<and>
       confusion_counts y_true y_pred = ((NpInt (int tn), NpInt (int fp), NpInt (int fn), NpInt (int tp)), [])"
  by (auto simp: takes_fallback_def confusion_counts_def split: sum.splits list.splits)





lemma num_add_zero: "num_add a (PyInt 0) = a"
proof (cases a)
  case (PyFloat x) then show ?thesis by (cases x) (simp_all add: num_add_def mk_float_def)
next
  case (NpFloat x) then show ?thesis by (cases x) (simp_all add: num_add_def mk_float_def)
qed (simp_all add: num_add_def mk_int_def)

lemma add_zero_counts:
  "TN (add_measures t (PyInt 0, PyInt 0, PyInt 0, PyInt 0) m) = TN t
   \<and> FP (add_measures t (PyInt 0, PyInt 0, PyInt 0, PyInt 0) m) = FP t
   \<and> FN (add_measures t (PyInt 0, PyInt 0, PyInt 0, PyInt 0) m) = FN t
   \<and> TP (add_measures t (PyInt 0, PyInt 0, PyInt 0, PyInt 0) m) = TP t"
  by (simp add: add_measures_def num_add_zero)

lemma measure3d_error: "measure3d a b = Inl e \<Longrightarrow> e = ValueError"
  by (auto simp: measure3d_def and_then_def mean_absolute_error_def metric_mse_def arr_sub_def
        max_error_sk_def abs_max_def Let_def split: sum.splits if_splits list.splits)

subsection \<open>Loops over the batches of a phase\<close>

lemma for_each_tally:
  assumes step: "\<And>s t lg. step s (t, lg) =
            (case M s of Inl e \<Rightarrow> Inl (e, lg @ P s)
             | Inr m \<Rightarrow> Inr (add_measures t (C s) m, lg @ P s))"
    and run: "for_each step ds (t, lg) = Inr (t', lg')"
  shows "\<exists>ms. map M ds = map Inr ms
            \<and> t' = foldl (\<lambda>t (s, m). add_measures t (C s) m) t (zip ds ms)
            \<and> lg' = lg @ concat (map P ds)"
  using run
proof (induction ds arbitrary: t lg)
  case Nil
  then show ?case by simp
next
  case (Cons s ds)
  from Cons.prems obtain m where m: "M s = Inr m"
    and rest: "for_each step ds (add_measures t (C s) m, lg @ P s) = Inr (t', lg')"
    by (auto simp: step split: sum.splits)
  from Cons.IH [OF rest] obtain ms where
    "map M ds = map Inr ms"
    "t' = foldl (\<lambda>t (s, m). add_measures t (C s) m) (add_measures t (C s) m) (zip ds ms)"
    "lg' = (lg @ P s) @ concat (map P ds)"
    by blast
  then show ?case
    using m by (intro exI [of _ "m # ms"]) simp
qed

lemma for_each_raise:
  assumes step: "\<And>s t lg. step s (t, lg) =
            (case M s of Inl e \<Rightarrow> Inl (e, lg @ P s)
             | Inr m \<Rightarrow> Inr (add_measures t (C s) m, lg @ P s))"
    and run: "for_each step ds (t, lg) = Inl (e, l)"
  shows "\<exists>s\<in>set ds. M s = Inl e"
  using run
proof (induction ds arbitrary: t lg)
  case Nil
  then show ?case by simp
next
  case (Cons s ds)
  then show ?case
    by (auto simp: step split: sum.splits)
qed

lemma for_each_returns:
  assumes step: "\<And>s t lg. step s (t, lg) =
            (case M s of Inl e \<Rightarrow> Inl (e, lg @ P s)
             | Inr m \<Rightarrow> Inr (add_measures t (C s) m, lg @ P s))"
    and ok: "\<forall>s\<in>set ds. \<exists>m. M s = Inr m"
  shows "\<exists>t' lg'. for_each step ds (t, lg) = Inr (t', lg')"
  using ok
proof (induction ds arbitrary: t lg)
  case Nil
  then show ?case by simp
next
  case (Cons s ds)
  then show ?case
    by (auto simp: step split: sum.splits)
qed


subsection \<open>The accumulators after the loop\<close>

lemma as_float_integer: "is_integer a \<Longrightarrow> as_float a = Fin (of_int (int_of a))"
  by (cases a) simp_all

lemma as_float_add: "as_float (num_add a b) = np_add (as_float a) (as_float b)"
  by (cases a; cases b) (simp_all add: num_add_def mk_int_def mk_float_def)

lemma as_float_mul: "as_float (num_mul a b) = np_mul (as_float a) (as_float b)"
  by (cases a; cases b) (simp_all add: num_mul_def mk_int_def mk_float_def)

lemma as_float_truediv: "num_truediv a b = Inr c \<Longrightarrow> as_float c = np_div (as_float a) (as_float b)"
  by (auto simp: num_truediv_def mk_float_def split: if_splits)

lemma integer_add: "is_integer a \<Longrightarrow> is_integer b \<Longrightarrow>
    is_integer (num_add a b) \<and> int_of (num_add a b) = int_of a + int_of b"
  by (simp add: num_add_def mk_int_def)

lemma counts_integer:
  "case batch_counts env st s of (tn, fp, fn, tp) \<Rightarrow>
     is_integer tn \<and> is_integer fp \<and> is_integer fn \<and> is_integer tp"
  by (auto simp: batch_counts_def confusion_counts_def split: sum.splits list.splits)

lemma tally_counts:
  assumes "length ms = length ds"
    and "is_integer (TP t)" "is_integer (FN t)" "is_integer (FP t)"
  shows "let t' = foldl (\<lambda>t (s, m). add_measures t (batch_counts env st s) m) t (zip ds ms)
         in is_integer (TP t') \<and> is_integer (FN t') \<and> is_integer (FP t')
          \<and> int_of (TP t') = int_of (TP t) + sum_list (map tp_of (map (batch_counts env st) ds))
          \<and> int_of (FN t') = int_of (FN t) + sum_list (map fn_of (map (batch_counts env st) ds))
          \<and> int_of (FP t') = int_of (FP t) + sum_list (map fp_of (map (batch_counts env st) ds))"
  using assms
proof (induction ds arbitrary: ms t)
  case Nil
  then show ?case by simp
next
  case (Cons s ds)
  then obtain m ms' where ms: "ms = m # ms'" and len: "length ms' = length ds"
    by (cases ms) auto
  obtain tn fp fn tp where c: "batch_counts env st s = (tn, fp, fn, tp)"
    by (cases "batch_counts env st s") auto
  have ints: "is_integer tn" "is_integer fp" "is_integer fn" "is_integer tp"
    using counts_integer [of env st s] by (simp_all add: c)
  let ?t1 = "add_measures t (batch_counts env st s) m"
  have t1: "is_integer (TP ?t1)" "is_integer (FN ?t1)" "is_integer (FP ?t1)"
    "int_of (TP ?t1) = int_of (TP t) + int_of tp"
    "int_of (FN ?t1) = int_of (FN t) + int_of fn"
    "int_of (FP ?t1) = int_of (FP t) + int_of fp"
    using Cons.prems ints by (simp_all add: add_measures_def c integer_add)
  show ?case
    using Cons.IH [OF len t1(1-3)] t1(4-6)
    by (simp add: ms Let_def c tp_of_def fn_of_def fp_of_def)
qed

lemma tally_floats:
  assumes "length ms = length ds"
  shows "let t' = foldl (\<lambda>t (s, m). add_measures t (C s) m) t (zip ds ms)
         in as_float (mean_mae t') = foldl np_add (as_float (mean_mae t)) (map (\<lambda>b. as_float (mean_ae b)) ms)
          \<and> as_float (rmse1 t') = foldl np_add (as_float (rmse1 t)) (map (\<lambda>b. as_float (s_rmse1 b)) ms)
          \<and> as_float (rmse2 t') = foldl np_add (as_float (rmse2 t)) (map (\<lambda>b. as_float (s_rmse2 b)) ms)"
  using assms
proof (induction ds arbitrary: ms t)
  case Nil
  then show ?case by simp
next
  case (Cons s ds)
  then obtain m ms' where ms: "ms = m # ms'" and len: "length ms' = length ds"
    by (cases ms) auto
  show ?case
    using Cons.IH [OF len, of "add_measures t (C s) m"]
    by (simp add: ms Let_def add_measures_def as_float_add split: prod.splits)
qed

lemma tally_fallback:
  assumes "\<forall>s\<in>set ds. C s = (PyInt 0, PyInt 0, PyInt 0, PyInt 0)"
  shows "let t' = foldl (\<lambda>t (s, m). add_measures t (C s) m) t (zip ds ms)
         in TP t' = TP t \<and> FN t' = FN t \<and> FP t' = FP t"
  using assms
proof (induction ds arbitrary: ms t)
  case Nil
  then show ?case by simp
next
  case (Cons s ds)
  show ?case
  proof (cases ms)
    case Nil
    then show ?thesis by simp
  next
    case (Cons m ms')
    then show ?thesis
      using Cons.IH [of "add_measures t (C s) m" ms'] Cons.prems add_zero_counts [of t m]
      by (simp add: Let_def)
  qed
qed

lemma phase_end_zero_counts:
  "TP t = PyInt 0 \<Longrightarrow> FN t = PyInt 0 \<Longrightarrow> FP t = PyInt 0 \<Longrightarrow> phase_end t n = Inl ZeroDivisionError"
  by (simp add: phase_end_def and_then_def num_truediv_def num_mul_def num_add_def mk_int_def)

lemma phase_end_error: "phase_end t n = Inl e \<Longrightarrow> e = ZeroDivisionError"
  by (auto simp: phase_end_def and_then_def num_truediv_def split: sum.splits if_splits)

lemma phase_end_forms:
  assumes "phase_end t n = Inr m"
    and "is_integer (TP t)" "is_integer (FN t)" "is_integer (FP t)"
  shows "as_float (F1 m) = closed_F1 (int_of (TP t)) (int_of (FN t)) (int_of (FP t))
       \<and> as_float (IoU m) = closed_IoU (int_of (TP t)) (int_of (FN t)) (int_of (FP t))
       \<and> as_float (meanMAE m) = np_div (as_float (mean_mae t)) (Fin (real n))
       \<and> as_float (RMSE1 m) = np_sqrt (np_div (as_float (rmse1 t)) (Fin (real n)))
       \<and> as_float (RMSE2 m) = np_sqrt (np_div (as_float (rmse2 t)) (Fin (real n)))"
proof -
  from assms(1) obtain f1 iou mae r1 r2 where
    d: "num_truediv (num_mul (PyInt 2) (TP t))
                    (num_add (num_add (num_mul (PyInt 2) (TP t)) (FN t)) (FP t)) = Inr f1"
       "num_truediv (TP t) (num_add (num_add (TP t) (FN t)) (FP t)) = Inr iou"
       "num_truediv (mean_mae t) (PyInt (int n)) = Inr mae"
       "num_truediv (rmse1 t) (PyInt (int n)) = Inr r1"
       "num_truediv (rmse2 t) (PyInt (int n)) = Inr r2"
    and m: "m = \<lparr>F1 = f1, IoU = iou, meanMAE = mae, RMSE1 = num_sqrt r1, RMSE2 = num_sqrt r2\<rparr>"
    by (auto simp: phase_end_def and_then_def split: sum.splits)
  show ?thesis
    using d [THEN as_float_truediv] assms(2-4)
    by (simp add: m num_sqrt_def as_float_mul as_float_add as_float_integer closed_F1_def
          closed_IoU_def)
qed

lemma verbose_report_raises:
  "verbose_report (batch_names (tn, fp, fn, tp) m) =
     Inl (NameError ''s_rmse'', [Print '''', Formatted ''2D Val'' [tn, fn, tp, fp]])"
  by (simp add: verbose_report_def batch_names_def and_then_def)

lemma test_batch_verbose:
  assumes "verbose cfg"
  shows "test_batch env cfg st s (t, lg) =
     (let (out2d, raw3d) = predict env (params st) (mode st) (images s);
          (cnt, said) = confusion_counts (mask2d s) out2d
      in case measure3d (mask3d s) (map (denormalize_test (min_scale cfg) (max_scale cfg)) raw3d) of
           Inl e \<Rightarrow> Inl (ValueError, lg @ said)
         | Inr m \<Rightarrow> (case cnt of (tn, fp, fn, tp) \<Rightarrow>
             Inl (NameError ''s_rmse'', lg @ said @ [Print '''', Formatted ''2D Val'' [tn, fn, tp, fp]])))"
  using assms
  by (auto simp: test_batch_def verbose_report_raises Let_def split: prod.splits sum.splits
      dest: measure3d_error)

lemma valid_step:
  "valid_batch env cfg st s (t, lg) =
     (case measure3d (mask3d s) (out3d_val env cfg st s) of
        Inl e \<Rightarrow> Inl (e, lg @ snd (confusion_counts (mask2d s) (out2d_of env st s)))
      | Inr m \<Rightarrow> Inr (add_measures t (batch_counts env st s) m,
                     lg @ snd (confusion_counts (mask2d s) (out2d_of env st s))))"
  by (simp add: valid_batch_unfold batch_counts_def split: sum.splits)

lemma test_step:
  "\<not> verbose cfg \<Longrightarrow> test_batch env cfg st s (t, lg) =
     (case measure3d (mask3d s) (out3d_test env cfg st s) of
        Inl e \<Rightarrow> Inl (e, lg @ snd (confusion_counts (mask2d s) (out2d_of env st s)))
      | Inr m \<Rightarrow> Inr (add_measures t (batch_counts env st s) m,
                     lg @ snd (confusion_counts (mask2d s) (out2d_of env st s))))"
  by (simp add: test_batch_unfold batch_counts_def split: sum.splits)

lemma tally0_integer: "is_integer (TP tally0)" "is_integer (FN tally0)" "is_integer (FP tally0)"
  by (simp_all add: tally0_def)

lemma loop_closed_forms:
  assumes step: "\<And>s t lg. step s (t, lg) =
            (case M s of Inl e \<Rightarrow> Inl (e, lg @ P s)
             | Inr m \<Rightarrow> Inr (add_measures t (batch_counts env st s) m, lg @ P s))"
    and run: "for_each step ds (tally0, lg) = Inr (t, lg')"
    and fin: "phase_end t (length ds) = Inr m"
  shows "\<exists>ms. map M ds = map Inr ms
           \<and> agrees_with_closed_forms m (map (batch_counts env st) ds) ms"
proof -
  from for_each_tally [where C = "batch_counts env st", OF step run] obtain ms where
    ms: "map M ds = map Inr ms"
    and t: "t = foldl (\<lambda>t (s, m). add_measures t (batch_counts env st s) m) tally0 (zip ds ms)"
    by blast
  have len: "length ms = length ds"
    using ms [THEN map_eq_imp_length_eq] by simp
  have cnt: "is_integer (TP t)" "is_integer (FN t)" "is_integer (FP t)"
    "int_of (TP t) = sum_list (map tp_of (map (batch_counts env st) ds))"
    "int_of (FN t) = sum_list (map fn_of (map (batch_counts env st) ds))"
    "int_of (FP t) = sum_list (map fp_of (map (batch_counts env st) ds))"
    using tally_counts [OF len tally0_integer, of env st] unfolding t [symmetric] Let_def
    by (simp_all add: tally0_def)
  have flt: "as_float (mean_mae t) = np_sum (map (\<lambda>b. as_float (mean_ae b)) ms)"
    "as_float (rmse1 t) = np_sum (map (\<lambda>b. as_float (s_rmse1 b)) ms)"
    "as_float (rmse2 t) = np_sum (map (\<lambda>b. as_float (s_rmse2 b)) ms)"
    using tally_floats [OF len, of "batch_counts env st" tally0] unfolding t [symmetric] Let_def
    by (simp_all add: tally0_def np_sum_def)
  have "agrees_with_closed_forms m (map (batch_counts env st) ds) ms"
    using phase_end_forms [OF fin cnt(1-3)]
    by (simp add: agrees_with_closed_forms_def Let_def cnt(4-6) flt closed_mean_def closed_rmse_def len)
  with ms show ?thesis by blast
qed

lemma test_phase_verbose_raises:
  assumes "verbose cfg"
  shows "\<exists>e l. test_phase env cfg ds st = Inl (e, l)"
proof (cases ds)
  case Nil
  have "phase_end tally0 0 = Inl ZeroDivisionError"
    by (rule phase_end_zero_counts) (simp_all add: tally0_def)
  then show ?thesis
    by (simp add: Nil test_phase_def Let_def)
next
  case (Cons s rest)
  have "\<exists>e l. test_batch env cfg (test_start cfg st) s (tally0, trace (test_start cfg st)) = Inl (e, l)"
    unfolding test_batch_verbose [OF assms]
    by (auto simp: Let_def split: prod.splits sum.splits)
  then show ?thesis
    by (auto simp: Cons test_phase_def Let_def)
qed

text \<open>
  Claim C5.  When a validation or a test phase returns its metrics, every batch has
  produced its 3D values and the metrics are the closed forms on the sums over the
  batches: \<open>F1 = 2*TP/(2*TP+FN+FP)\<close> and \<open>IoU = TP/(TP+FN+FP)\<close> on the summed
  counts, \<open>meanMAE = sum(MAE)/n\<close>, \<open>RMSE = sqrt(sum(mse)/n)\<close> and
  \<open>cRMSE = sqrt(sum(mse_excl_zero)/n)\<close> with \<open>n\<close> the number of batches, so every
  batch weighs the same.
\<close>

theorem phase_metrics_closed_form:
  "(validation_phase env cfg ds st = Inr (m, st') \<longrightarrow>
      (\<exists>ms. map (\<lambda>s. measure3d (mask3d s) (out3d_val env cfg (net_eval st) s)) ds = map Inr ms
          \<and> agrees_with_closed_forms m (map (batch_counts env (net_eval st)) ds) ms))
   \<and> (test_phase env cfg ds st = Inr (m, st') \<longrightarrow>
      (\<exists>ms. map (\<lambda>s. measure3d (mask3d s) (out3d_test env cfg (test_start cfg st) s)) ds = map Inr ms
          \<and> agrees_with_closed_forms m (map (batch_counts env (test_start cfg st)) ds) ms))"
proof (intro conjI impI)
  assume v: "validation_phase env cfg ds st = Inr (m, st')"
  then obtain t lg where
    run: "for_each (valid_batch env cfg (net_eval st)) ds (tally0, trace (net_eval st)) = Inr (t, lg)"
    and fin: "phase_end t (length ds) = Inr m"
    by (auto simp: validation_phase_def Let_def split: sum.splits)
  show "\<exists>ms. map (\<lambda>s. measure3d (mask3d s) (out3d_val env cfg (net_eval st) s)) ds = map Inr ms
          \<and> agrees_with_closed_forms m (map (batch_counts env (net_eval st)) ds) ms"
    by (rule loop_closed_forms [OF valid_step run fin])
next
  assume v: "test_phase env cfg ds st = Inr (m, st')"
  then have quiet: "\<not> verbose cfg"
    using test_phase_verbose_raises [of cfg env ds st] by auto
  from v obtain t lg where
    run: "for_each (test_batch env cfg (test_start cfg st)) ds (tally0, trace (test_start cfg st)) = Inr (t, lg)"
    and fin: "phase_end t (length ds) = Inr m"
    by (auto simp: test_phase_def Let_def split: sum.splits)
  show "\<exists>ms. map (\<lambda>s. measure3d (mask3d s) (out3d_test env cfg (test_start cfg st) s)) ds = map Inr ms
          \<and> agrees_with_closed_forms m (map (batch_counts env (test_start cfg st)) ds) ms"
    by (rule loop_closed_forms [OF test_step [OF quiet] run fin])
qed

lemma loop_all_fallback:
  assumes step: "\<And>s t lg. step s (t, lg) =
            (case M s of Inl e \<Rightarrow> Inl (e, lg @ P s)
             | Inr m \<Rightarrow> Inr (add_measures t (batch_counts env st s) m, lg @ P s))"
    and fb: "\<forall>s\<in>set ds. takes_fallback (mask2d s) (out2d_of env st s)"
    and err: "\<And>s e. M s = Inl e \<Longrightarrow> e = ValueError"
  shows "(\<exists>l. for_each step ds (tally0, lg) = Inl (ValueError, l) \<and> (\<exists>s\<in>set ds. M s = Inl ValueError))
       \<or> (\<exists>t l. for_each step ds (tally0, lg) = Inr (t, l) \<and> phase_end t n = Inl ZeroDivisionError)"
proof (cases "for_each step ds (tally0, lg)")
  case (Inl f)
  obtain e l where f: "f = (e, l)" by (cases f)
  from for_each_raise [where C = "batch_counts env st", OF step Inl [unfolded f]]
  obtain s where "s \<in> set ds" "M s = Inl e" by blast
  then show ?thesis
    using Inl f err by auto
next
  case (Inr r)
  obtain t l where r: "r = (t, l)" by (cases r)
  from for_each_tally [where C = "batch_counts env st", OF step Inr [unfolded r]] obtain ms where
    t: "t = foldl (\<lambda>t (s, m). add_measures t (batch_counts env st s) m) tally0 (zip ds ms)"
    by blast
  have "\<forall>s\<in>set ds. batch_counts env st s = (PyInt 0, PyInt 0, PyInt 0, PyInt 0)"
    using fb by (simp add: batch_counts_def fallback_counts)
  from tally_fallback [OF this, of tally0 ms]
  have "TP t = PyInt 0" "FN t = PyInt 0" "FP t = PyInt 0"
    unfolding t [symmetric] Let_def by (simp_all add: tally0_def)
  then have "phase_end t n = Inl ZeroDivisionError"
    by (rule phase_end_zero_counts)
  then show ?thesis
    using Inr r by simp
qed

text \<open>
  Claim C8.  The divisions of lines 274-275 and 351-352 are not guarded.  When every
  batch of a phase takes the fallback, the counts stay the Python integers \<open>0\<close> and
  the phase raises instead of returning metrics: \<open>ZeroDivisionError\<close> at the
  division for \<open>F1\<close> whenever the batches themselves went through (in the test
  phase: without the verbose flag).
\<close>

theorem all_fallback_phase_raises:
  "((\<forall>s\<in>set ds. takes_fallback (mask2d s) (out2d_of env (net_eval st) s)) \<longrightarrow>
      (\<exists>e l. validation_phase env cfg ds st = Inl (e, l)
           \<and> (e = ZeroDivisionError \<or> e = ValueError)
           \<and> ((\<forall>s\<in>set ds. \<exists>b. measure3d (mask3d s) (out3d_val env cfg (net_eval st) s) = Inr b)
                \<longrightarrow> e = ZeroDivisionError)))
   \<and> ((\<forall>s\<in>set ds. takes_fallback (mask2d s) (out2d_of env (test_start cfg st) s)) \<longrightarrow>
      (\<exists>e l. test_phase env cfg ds st = Inl (e, l)
           \<and> (\<not> verbose cfg
               \<and> (\<forall>s\<in>set ds. \<exists>b. measure3d (mask3d s) (out3d_test env cfg (test_start cfg st) s) = Inr b)
                \<longrightarrow> e = ZeroDivisionError)))"
proof (intro conjI impI)
  assume fb: "\<forall>s\<in>set ds. takes_fallback (mask2d s) (out2d_of env (net_eval st) s)"
  show "\<exists>e l. validation_phase env cfg ds st = Inl (e, l)
           \<and> (e = ZeroDivisionError \<or> e = ValueError)
           \<and> ((\<forall>s\<in>set ds. \<exists>b. measure3d (mask3d s) (out3d_val env cfg (net_eval st) s) = Inr b)
                \<longrightarrow> e = ZeroDivisionError)"
  proof -
    have "(\<exists>l. for_each (valid_batch env cfg (net_eval st)) ds (tally0, trace (net_eval st)) = Inl (ValueError, l)
             \<and> (\<exists>s\<in>set ds. measure3d (mask3d s) (out3d_val env cfg (net_eval st) s) = Inl ValueError))
       \<or> (\<exists>t l. for_each (valid_batch env cfg (net_eval st)) ds (tally0, trace (net_eval st)) = Inr (t, l)
             \<and> phase_end t (length ds) = Inl ZeroDivisionError)"
      by (rule loop_all_fallback [where M = "\<lambda>s. measure3d (mask3d s) (out3d_val env cfg (net_eval st) s)"
            and st = "net_eval st" and env = env])
        (rule valid_step, rule fb, erule measure3d_error)
    then show ?thesis
      by (fastforce simp: validation_phase_def Let_def)
  qed
next
  assume fb: "\<forall>s\<in>set ds. takes_fallback (mask2d s) (out2d_of env (test_start cfg st) s)"
  show "\<exists>e l. test_phase env cfg ds st = Inl (e, l)
           \<and> (\<not> verbose cfg
               \<and> (\<forall>s\<in>set ds. \<exists>b. measure3d (mask3d s) (out3d_test env cfg (test_start cfg st) s) = Inr b)
                \<longrightarrow> e = ZeroDivisionError)"
  proof (cases "verbose cfg")
    case True
    then show ?thesis
      using test_phase_verbose_raises [of cfg env ds st] by auto
  next
    case False
    have "(\<exists>l. for_each (test_batch env cfg (test_start cfg st)) ds (tally0, trace (test_start cfg st)) = Inl (ValueError, l)
             \<and> (\<exists>s\<in>set ds. measure3d (mask3d s) (out3d_test env cfg (test_start cfg st) s) = Inl ValueError))
       \<or> (\<exists>t l. for_each (test_batch env cfg (test_start cfg st)) ds (tally0, trace (test_start cfg st)) = Inr (t, l)
             \<and> phase_end t (length ds) = Inl ZeroDivisionError)"
      by (rule loop_all_fallback [where M = "\<lambda>s. measure3d (mask3d s) (out3d_test env cfg (test_start cfg st) s)"
            and st = "test_start cfg st" and env = env])
        (rule test_step [OF False], rule fb, erule measure3d_error)
    then show ?thesis
      by (fastforce simp: test_phase_def Let_def)
  qed
qed

subsection \<open>Degenerate confusion matrix\<close>


subsection \<open>Verbose branch of the test phase\<close>

text \<open>
  Claim C7.  With the verbose flag, the second formatted line of the verbose branch
  mentions \<open>s_rmse\<close>, which nothing binds: the branch raises \<open>NameError\<close> after
  printing the 2D line.  A test batch therefore never completes (it raises this
  \<open>NameError\<close>, unless its 3D metrics had already raised), and a test phase with at
  least one batch never returns.
\<close>

theorem verbose_branch_raises:
  assumes "verbose cfg"
  shows "verbose_report (batch_names (tn, fp, fn, tp) m) =
           Inl (NameError ''s_rmse'', [Print '''', Formatted ''2D Val'' [tn, fn, tp, fp]])
       \<and> (\<exists>e l. test_batch env cfg st s (t, lg) = Inl (e, l) \<and>
              (e = NameError ''s_rmse'' \<or>
               e = ValueError \<and>
               measure3d (mask3d s)
                 (map (denormalize_test (min_scale cfg) (max_scale cfg))
                      (snd (predict env (params st) (mode st) (images s)))) = Inl ValueError))
       \<and> (\<exists>e l. test_phase env cfg (s # rest) st0 = Inl (e, l) \<and> (e = NameError ''s_rmse'' \<or> e = ValueError))"
proof (intro conjI)
  show "verbose_report (batch_names (tn, fp, fn, tp) m) =
           Inl (NameError ''s_rmse'', [Print '''', Formatted ''2D Val'' [tn, fn, tp, fp]])"
    by (rule verbose_report_raises)
  show "\<exists>e l. test_batch env cfg st s (t, lg) = Inl (e, l) \<and>
              (e = NameError ''s_rmse'' \<or>
               e = ValueError \<and>
               measure3d (mask3d s)
                 (map (denormalize_test (min_scale cfg) (max_scale cfg))
                      (snd (predict env (params st) (mode st) (images s)))) = Inl ValueError)"
    unfolding test_batch_verbose [OF assms]
    by (auto simp: Let_def split: prod.splits sum.splits dest: measure3d_error)
  have "\<exists>e l. test_batch env cfg (test_start cfg st0) s (tally0, trace (test_start cfg st0)) = Inl (e, l)
         \<and> (e = NameError ''s_rmse'' \<or> e = ValueError)"
    unfolding test_batch_verbose [OF assms]
    by (auto simp: Let_def split: prod.splits sum.splits)
  then show "\<exists>e l. test_phase env cfg (s # rest) st0 = Inl (e, l) \<and> (e = NameError ''s_rmse'' \<or> e = ValueError)"
    by (auto simp: test_phase_def Let_def)
qed

subsection \<open>Checkpoints and modes over the run\<close>

subsection \<open>Order of the best-metric trackers\<close>

lemma np_less_trans: "np_less a b \<Longrightarrow> np_less b c \<Longrightarrow> np_less a c"
  by (cases a; cases b; cases c) auto

lemma num_le_refl: "num_le a a"
  by (simp add: num_le_def)

lemma num_le_trans: "num_le a b \<Longrightarrow> num_le b c \<Longrightarrow> num_le a c"
  by (auto simp: num_le_def num_less_def intro: np_less_trans)

subsection \<open>What the phases do to the state\<close>

lemma train_loop:
  "foldl (\<lambda>a b. train_batch env cfg e b a) (x, y, st) bs = (x', y', st') \<Longrightarrow>
     best2dmetric st' = best2dmetric st \<and> best3dmetric st' = best3dmetric st
     \<and> mode st' = mode st \<and> files st' = files st
     \<and> trace st' = trace st @ replicate (length bs) (TrainStep e (mode st))"
proof (induction bs arbitrary: x y st)
  case Nil
  then show ?case by simp
next
  case (Cons b bs)
  obtain x1 y1 st1 where s1: "train_batch env cfg e b (x, y, st) = (x1, y1, st1)"
    by (cases "train_batch env cfg e b (x, y, st)") auto
  then have st1: "best2dmetric st1 = best2dmetric st" "best3dmetric st1 = best3dmetric st"
    "mode st1 = mode st" "files st1 = files st"
    "trace st1 = trace st @ [TrainStep e (mode st)]"
    by (auto simp: train_batch_def Let_def split: prod.splits)
  from Cons.prems have "foldl (\<lambda>a b. train_batch env cfg e b a) (x1, y1, st1) bs = (x', y', st')"
    by (simp add: s1)
  from Cons.IH [OF this] show ?case
    by (simp add: st1 replicate_app_Cons_same)
qed

lemma train_phase_returns:
  assumes "train_phase env cfg ds e st = Inr (r, st')"
  shows "best2dmetric st' = best2dmetric st \<and> best3dmetric st' = best3dmetric st
     \<and> mode st' = mode st \<and> files st' = files st
     \<and> (\<exists>ev. trace st' = trace st @ ev \<and> (\<forall>x\<in>set ev. x = TrainStep e (mode st) \<or> is_output x))"
proof -
  obtain x y st1 where l: "foldl (\<lambda>a b. train_batch env cfg e b a) (PyInt 0, PyInt 0, st)
        (batches_of (batch_size cfg) (shuffled env e ds)) = (x, y, st1)"
    by (cases "foldl (\<lambda>a b. train_batch env cfg e b a) (PyInt 0, PyInt 0, st)
        (batches_of (batch_size cfg) (shuffled env e ds))") auto
  from train_loop [OF l] assms show ?thesis
    by (auto simp: train_phase_def l Let_def split: sum.splits)
qed

lemma train_phase_raises:
  assumes "train_phase env cfg ds e st = Inl (err, lg)"
  shows "\<exists>ev. lg = trace st @ ev \<and> (\<forall>x\<in>set ev. x = TrainStep e (mode st) \<or> is_output x)"
proof -
  obtain x y st1 where l: "foldl (\<lambda>a b. train_batch env cfg e b a) (PyInt 0, PyInt 0, st)
        (batches_of (batch_size cfg) (shuffled env e ds)) = (x, y, st1)"
    by (cases "foldl (\<lambda>a b. train_batch env cfg e b a) (PyInt 0, PyInt 0, st)
        (batches_of (batch_size cfg) (shuffled env e ds))") auto
  have tr: "trace st1 = trace st @ replicate (length (batches_of (batch_size cfg) (shuffled env e ds)))
      (TrainStep e (mode st))"
    using train_loop [OF l] by simp
  have "lg = trace st1"
    using assms by (auto simp: train_phase_def l Let_def split: sum.splits)
  then show ?thesis
    using tr by (intro exI [of _ "replicate (length (batches_of (batch_size cfg) (shuffled env e ds)))
      (TrainStep e (mode st))"]) simp
qed

lemma said_output: "\<forall>x\<in>set (snd (confusion_counts a b)). is_output x"
  by (auto simp: confusion_counts_def split: sum.splits list.splits)

lemma valid_loop_log:
  "for_each (valid_batch env cfg st) ds (t, lg) = r \<Longrightarrow>
     \<exists>ev. (case r of Inl (e, l) \<Rightarrow> l | Inr (t', l) \<Rightarrow> l) = lg @ ev \<and> (\<forall>x\<in>set ev. is_output x)"
proof (induction ds arbitrary: t lg r)
  case Nil
  then show ?case by auto
next
  case (Cons s ds)
  let ?said = "snd (confusion_counts (mask2d s) (out2d_of env st s))"
  show ?case
  proof (cases "measure3d (mask3d s) (out3d_val env cfg st s)")
    case (Inl e)
    then have "r = Inl (e, lg @ ?said)"
      using Cons.prems by (simp add: valid_step)
    then show ?thesis
      using said_output by auto
  next
    case (Inr m)
    then have "for_each (valid_batch env cfg st) ds (add_measures t (batch_counts env st s) m, lg @ ?said) = r"
      using Cons.prems by (simp add: valid_step)
    from Cons.IH [OF this] obtain ev where
      "(case r of Inl (e, l) \<Rightarrow> l | Inr (t', l) \<Rightarrow> l) = (lg @ ?said) @ ev" "\<forall>x\<in>set ev. is_output x"
      by blast
    then show ?thesis
      using said_output [of "mask2d s" "out2d_of env st s"]
      by (intro exI [of _ "?said @ ev"]) auto
  qed
qed

lemma checkpoint_decision_state:
  "best2dmetric (checkpoint_decision m st) =
     (if num_less (best2dmetric st) (F1 m) then F1 m else best2dmetric st)
   \<and> best3dmetric (checkpoint_decision m st) =
     (if num_less (RMSE2 m) (best3dmetric st) then RMSE2 m else best3dmetric st)
   \<and> files (checkpoint_decision m st) =
     (\<lambda>f. if f = ''3dbestnet.pth'' \<and> num_less (RMSE2 m) (best3dmetric st) then Some (params st)
          else if f = ''2dbestnet.pth'' \<and> num_less (best2dmetric st) (F1 m) then Some (params st)
          else files st f)
   \<and> params (checkpoint_decision m st) = params st
   \<and> mode (checkpoint_decision m st) = mode st
   \<and> (\<exists>ev. trace (checkpoint_decision m st) = trace st @ ev \<and> (\<forall>x\<in>set ev. is_output x))"
  by (auto simp: checkpoint_decision_def Let_def fun_eq_iff)

lemma validation_phase_returns:
  assumes "validation_phase env cfg va st = Inr (m, st')"
  shows "best2dmetric st' = (if num_less (best2dmetric st) (F1 m) then F1 m else best2dmetric st)
   \<and> best3dmetric st' = (if num_less (RMSE2 m) (best3dmetric st) then RMSE2 m else best3dmetric st)
   \<and> files st' =
     (\<lambda>f. if f = ''3dbestnet.pth'' \<and> num_less (RMSE2 m) (best3dmetric st) then Some (params st)
          else if f = ''2dbestnet.pth'' \<and> num_less (best2dmetric st) (F1 m) then Some (params st)
          else files st f)
   \<and> params st' = params st
   \<and> mode st' = EvalMode
   \<and> (\<exists>ev. trace st' = trace st @ CallEval # ev \<and> (\<forall>x\<in>set ev. is_output x))"
proof -
  from assms obtain t lg where
    run: "for_each (valid_batch env cfg (net_eval st)) va (tally0, trace (net_eval st)) = Inr (t, lg)"
    and st': "st' = checkpoint_decision m ((net_eval st)\<lparr>trace := lg @ [metrics_line ''Validation metrics'' m]\<rparr>)"
    by (auto simp: validation_phase_def Let_def split: sum.splits)
  from valid_loop_log [OF run] obtain ev where
    lg: "lg = trace (net_eval st) @ ev" and ev: "\<forall>x\<in>set ev. is_output x"
    by auto
  define s2 where "s2 = (net_eval st)\<lparr>trace := lg @ [metrics_line ''Validation metrics'' m]\<rparr>"
  have s2: "best2dmetric s2 = best2dmetric st" "best3dmetric s2 = best3dmetric st"
    "files s2 = files st" "params s2 = params st" "mode s2 = EvalMode"
    "trace s2 = trace st @ CallEval # (ev @ [metrics_line ''Validation metrics'' m])"
    by (simp_all add: s2_def net_eval_def lg)
  have st2: "st' = checkpoint_decision m s2"
    by (simp add: st' s2_def)
  from checkpoint_decision_state [of m s2] obtain ev2 where
    tr: "trace st' = trace s2 @ ev2" and ev2: "\<forall>x\<in>set ev2. is_output x"
    unfolding st2 by blast
  have "trace st' = trace st @ CallEval # (ev @ [metrics_line ''Validation metrics'' m] @ ev2)"
    using tr by (simp add: s2)
  moreover have "\<forall>x\<in>set (ev @ [metrics_line ''Validation metrics'' m] @ ev2). is_output x"
    using ev ev2 by (auto simp: metrics_line_def)
  ultimately have "\<exists>ev. trace st' = trace st @ CallEval # ev \<and> (\<forall>x\<in>set ev. is_output x)"
    by blast
  then show ?thesis
    using checkpoint_decision_state [of m s2] unfolding st2 [symmetric] s2
    by simp
qed

lemma validation_phase_raises:
  assumes "validation_phase env cfg va st = Inl (err, l)"
  shows "\<exists>ev. l = trace st @ CallEval # ev \<and> (\<forall>x\<in>set ev. is_output x)"
proof (cases "for_each (valid_batch env cfg (net_eval st)) va (tally0, trace (net_eval st))")
  case (Inl f)
  then have "f = (err, l)"
    using assms by (simp add: validation_phase_def Let_def)
  with valid_loop_log [OF Inl] show ?thesis
    by (auto simp: net_eval_def)
next
  case (Inr r)
  obtain t lg where r: "r = (t, lg)" by (cases r)
  then have "l = lg"
    using assms Inr by (auto simp: validation_phase_def Let_def split: sum.splits)
  with valid_loop_log [OF Inr] r show ?thesis
    by (auto simp: net_eval_def)
qed

lemma epoch_body_returns:
  assumes "epoch_body env cfg tr va e st = Inr st'"
  shows "mode st' = EvalMode
     \<and> num_le (best2dmetric st) (best2dmetric st') \<and> num_le (best3dmetric st') (best3dmetric st)
     \<and> (\<exists>ev. trace st' = trace st @ ev
            \<and> (\<forall>x\<in>set ev. x = TrainStep e (mode st) \<or> x = CallEval \<or> is_output x))"
proof -
  from assms obtain r st1 m st2 where
    t: "train_phase env cfg tr e st = Inr (r, st1)"
    and v: "validation_phase env cfg va st1 = Inr (m, st2)"
    and st': "st' = st2\<lparr>trace := trace st2 @
                [Stats e [fst r, fst (snd r), snd (snd r), RMSE1 m, RMSE2 m,
                          num_mul (F1 m) (PyInt 100), num_mul (IoU m) (PyInt 100)]]\<rparr>"
    by (auto simp: epoch_body_def split: sum.splits prod.splits)
  from train_phase_returns [OF t] obtain ev1 where
    s1: "best2dmetric st1 = best2dmetric st" "best3dmetric st1 = best3dmetric st"
    and tr1: "trace st1 = trace st @ ev1"
    and ev1: "\<forall>x\<in>set ev1. x = TrainStep e (mode st) \<or> is_output x"
    by blast
  from validation_phase_returns [OF v] obtain ev2 where
    b2: "best2dmetric st2 = (if num_less (best2dmetric st1) (F1 m) then F1 m else best2dmetric st1)"
    and b3: "best3dmetric st2 = (if num_less (RMSE2 m) (best3dmetric st1) then RMSE2 m else best3dmetric st1)"
    and md: "mode st2 = EvalMode"
    and tr2: "trace st2 = trace st1 @ CallEval # ev2"
    and ev2: "\<forall>x\<in>set ev2. is_output x"
    by blast
  have "num_le (best2dmetric st) (best2dmetric st')" "num_le (best3dmetric st') (best3dmetric st)"
    by (simp_all add: st' b2 b3 s1 num_le_def)
  moreover have "mode st' = EvalMode"
    by (simp add: st' md)
  moreover have "trace st' = trace st @ (ev1 @ CallEval # ev2 @
      [Stats e [fst r, fst (snd r), snd (snd r), RMSE1 m, RMSE2 m,
                num_mul (F1 m) (PyInt 100), num_mul (IoU m) (PyInt 100)]])"
    by (simp add: st' tr2 tr1)
  moreover have "\<forall>x\<in>set (ev1 @ CallEval # ev2 @
      [Stats e [fst r, fst (snd r), snd (snd r), RMSE1 m, RMSE2 m,
                num_mul (F1 m) (PyInt 100), num_mul (IoU m) (PyInt 100)]]).
        x = TrainStep e (mode st) \<or> x = CallEval \<or> is_output x"
    using ev1 ev2 by auto
  ultimately show ?thesis
    by blast
qed

lemma epoch_body_raises:
  assumes "epoch_body env cfg tr va e st = Inl (err, l)"
  shows "\<exists>ev. l = trace st @ ev
            \<and> (\<forall>x\<in>set ev. x = TrainStep e (mode st) \<or> x = CallEval \<or> is_output x)"
proof (cases "train_phase env cfg tr e st")
  case (Inl f)
  then have "train_phase env cfg tr e st = Inl (err, l)"
    using assms by (simp add: epoch_body_def)
  from train_phase_raises [OF this] show ?thesis
    by auto
next
  case (Inr p)
  obtain r st1 where p: "p = (r, st1)" by (cases p)
  then have v: "validation_phase env cfg va st1 = Inl (err, l)"
    using assms Inr by (auto simp: epoch_body_def split: sum.splits prod.splits)
  from train_phase_returns [OF Inr [unfolded p]] obtain ev1 where
    tr1: "trace st1 = trace st @ ev1"
    and ev1: "\<forall>x\<in>set ev1. x = TrainStep e (mode st) \<or> is_output x"
    by blast
  from validation_phase_raises [OF v] obtain ev2 where
    l: "l = trace st1 @ CallEval # ev2" and ev2: "\<forall>x\<in>set ev2. is_output x"
    by blast
  have "l = trace st @ (ev1 @ CallEval # ev2)"
    by (simp add: l tr1)
  moreover have "\<forall>x\<in>set (ev1 @ CallEval # ev2). x = TrainStep e (mode st) \<or> x = CallEval \<or> is_output x"
    using ev1 ev2 by auto
  ultimately show ?thesis
    by blast
qed

lemma epochs_monotone:
  "for_each (epoch_body env cfg tr va) es st = Inr st' \<Longrightarrow>
     num_le (best2dmetric st) (best2dmetric st') \<and> num_le (best3dmetric st') (best3dmetric st)"
proof (induction es arbitrary: st)
  case Nil
  then show ?case by (simp add: num_le_refl)
next
  case (Cons e es)
  then obtain st1 where e: "epoch_body env cfg tr va e st = Inr st1"
    and rest: "for_each (epoch_body env cfg tr va) es st1 = Inr st'"
    by (auto split: sum.splits)
  from epoch_body_returns [OF e] Cons.IH [OF rest] show ?case
    by (blast intro: num_le_trans)
qed

lemma epochs_trace:
  "\<exists>ev. outcome_trace (for_each (epoch_body env cfg tr va) [i..j] st) = trace st @ ev
     \<and> (\<forall>x\<in>set ev. x = TrainStep i (mode st) \<or> (\<exists>e. i < e \<and> x = TrainStep e EvalMode)
                     \<or> x = CallEval \<or> is_output x)"
proof (induction i j arbitrary: st rule: upto.induct)
  case (1 i j)
  show ?case
  proof (cases "i \<le> j")
    case False
    then show ?thesis
      by (simp add: outcome_trace_def)
  next
    case True
    then have up: "[i..j] = i # [i + 1..j]"
      by (simp add: upto_rec1)
    show ?thesis
    proof (cases "epoch_body env cfg tr va i st")
      case (Inl f)
      obtain err l where f: "f = (err, l)" by (cases f)
      from epoch_body_raises [OF Inl [unfolded f]] show ?thesis
        by (auto simp: up Inl f outcome_trace_def)
    next
      case (Inr st1)
      from epoch_body_returns [OF Inr] obtain ev1 where
        md: "mode st1 = EvalMode" and tr1: "trace st1 = trace st @ ev1"
        and ev1: "\<forall>x\<in>set ev1. x = TrainStep i (mode st) \<or> x = CallEval \<or> is_output x"
        by blast
      from "1.IH" [OF True, of st1] obtain ev2 where
        tr2: "outcome_trace (for_each (epoch_body env cfg tr va) [i + 1..j] st1) = trace st1 @ ev2"
        and ev2: "\<forall>x\<in>set ev2. x = TrainStep (i + 1) (mode st1) \<or> (\<exists>e. i + 1 < e \<and> x = TrainStep e EvalMode)
                     \<or> x = CallEval \<or> is_output x"
        by blast
      have "outcome_trace (for_each (epoch_body env cfg tr va) [i..j] st) = trace st @ (ev1 @ ev2)"
        by (simp add: up Inr tr2 tr1)
      moreover have "\<forall>x\<in>set (ev1 @ ev2). x = TrainStep i (mode st) \<or> (\<exists>e. i < e \<and> x = TrainStep e EvalMode)
                     \<or> x = CallEval \<or> is_output x"
      proof
        fix x assume "x \<in> set (ev1 @ ev2)"
        then consider "x \<in> set ev1" | "x \<in> set ev2" by auto
        then show "x = TrainStep i (mode st) \<or> (\<exists>e. i < e \<and> x = TrainStep e EvalMode)
                     \<or> x = CallEval \<or> is_output x"
        proof cases
          case 1
          then show ?thesis using ev1 by blast
        next
          case 2
          with ev2 have "x = TrainStep (i + 1) EvalMode \<or> (\<exists>e. i + 1 < e \<and> x = TrainStep e EvalMode)
                     \<or> x = CallEval \<or> is_output x"
            by (simp add: md)
          then show ?thesis
            by (auto intro: exI [of _ "i + 1"])
        qed
      qed
      ultimately show ?thesis
        by blast
    qed
  qed
qed

lemma start_state_trace:
  "\<exists>msg. trace (start_state cfg p0 fs0) = [Print msg, CallTrain]"
  by (simp add: start_state_def restore_checkpoint_def net_train_def Let_def split: option.splits)

lemma start_state_mode: "mode (start_state cfg p0 fs0) = TrainMode"
  by (simp add: start_state_def net_train_def Let_def)

text \<open>
  Claim C2.  A validation phase that returns ends with the two checks, each on its own
  metric and its own tracker: \<open>best2dmetric\<close> becomes \<open>F1\<close> and the network is
  saved as the 2D-best file exactly when \<open>F1 > best2dmetric\<close>; \<open>best3dmetric\<close>
  becomes \<open>RMSE2\<close> and the network is saved as the 3D-best file exactly when
  \<open>RMSE2 < best3dmetric\<close>; neither outcome mentions the other metric.  Over any
  number of epochs \<open>best2dmetric\<close> does not decrease and \<open>best3dmetric\<close> does not
  increase.
\<close>

theorem checkpoint_policy:
  "(validation_phase env cfg va st = Inr (m, st') \<longrightarrow>
      best2dmetric st' = (if num_less (best2dmetric st) (F1 m) then F1 m else best2dmetric st)
    \<and> best3dmetric st' = (if num_less (RMSE2 m) (best3dmetric st) then RMSE2 m else best3dmetric st)
    \<and> files st' =
        (\<lambda>f. if f = ''3dbestnet.pth'' \<and> num_less (RMSE2 m) (best3dmetric st) then Some (params st)
             else if f = ''2dbestnet.pth'' \<and> num_less (best2dmetric st) (F1 m) then Some (params st)
             else files st f)
    \<and> params st' = params st)
   \<and> (for_each (epoch_body env cfg tr va) es st = Inr st'' \<longrightarrow>
        num_le (best2dmetric st) (best2dmetric st'') \<and> num_le (best3dmetric st'') (best3dmetric st))"
  using validation_phase_returns [of env cfg va st m st'] epochs_monotone [of env cfg tr va es st st'']
  by blast

text \<open>
  Claim C10.  Whatever the run does (also when it raises), \<open>net.train()\<close> is called
  once, before everything of the epoch loop, and never again; the validation phases
  call \<open>net.eval()\<close>.  So the training batches of epoch 1 run in training mode and
  the training batches of every later epoch run in evaluation mode, and a run of at
  least one epoch ends in evaluation mode.
\<close>

theorem train_mode_first_epoch_only:
  "\<exists>msg ev. outcome_trace (training_run env cfg tr va p0 fs0) = [Print msg, CallTrain] @ ev
      \<and> CallTrain \<notin> set ev
      \<and> (\<forall>e m. TrainStep e m \<in> set ev \<longrightarrow>
            (if e = 1 then m = TrainMode else 1 < e \<and> m = EvalMode))
      \<and> (\<forall>st. training_run env cfg tr va p0 fs0 = Inr st \<and> 2 \<le> nepochs cfg \<longrightarrow> mode st = EvalMode)"
proof -
  obtain msg where tr0: "trace (start_state cfg p0 fs0) = [Print msg, CallTrain]"
    using start_state_trace [of cfg p0 fs0] by auto
  from epochs_trace [of env cfg tr va 1 "nepochs cfg - 1" "start_state cfg p0 fs0"] obtain ev where
    out: "outcome_trace (training_run env cfg tr va p0 fs0) = [Print msg, CallTrain] @ ev"
    and ev: "\<forall>x\<in>set ev. x = TrainStep 1 TrainMode \<or> (\<exists>e. 1 < e \<and> x = TrainStep e EvalMode)
                     \<or> x = CallEval \<or> is_output x"
    by (auto simp: training_run_def py_range_def tr0 start_state_mode)
  have a: "CallTrain \<notin> set ev"
    using ev by fastforce
  have b: "\<forall>e m. TrainStep e m \<in> set ev \<longrightarrow> (if e = 1 then m = TrainMode else 1 < e \<and> m = EvalMode)"
    using ev by fastforce
  have c: "\<forall>st. training_run env cfg tr va p0 fs0 = Inr st \<and> 2 \<le> nepochs cfg \<longrightarrow> mode st = EvalMode"
  proof (intro allI impI)
    fix st assume h: "training_run env cfg tr va p0 fs0 = Inr st \<and> 2 \<le> nepochs cfg"
    then have up: "[1..nepochs cfg - 1] = [1..nepochs cfg - 2] @ [nepochs cfg - 1]"
      using upto_rec2 [of 1 "nepochs cfg - 1"] by simp
    have split: "\<And>xs y s. for_each (epoch_body env cfg tr va) (xs @ [y]) s = Inr st \<Longrightarrow>
        \<exists>s1. epoch_body env cfg tr va y s1 = Inr st"
    proof -
      fix xs y s show "for_each (epoch_body env cfg tr va) (xs @ [y]) s = Inr st \<Longrightarrow>
        \<exists>s1. epoch_body env cfg tr va y s1 = Inr st"
        by (induction xs arbitrary: s) (auto split: sum.splits)
    qed
    from h have "for_each (epoch_body env cfg tr va) ([1..nepochs cfg - 2] @ [nepochs cfg - 1])
        (start_state cfg p0 fs0) = Inr st"
      by (simp add: training_run_def py_range_def up)
    from split [OF this] obtain s1 where "epoch_body env cfg tr va (nepochs cfg - 1) s1 = Inr st"
      by blast
    from epoch_body_returns [OF this] show "mode st = EvalMode"
      by blast
  qed
  from out a b c show ?thesis
    by blast
qed

subsection \<open>The example inputs, evaluated\<close>

lemmas demo_defs = demo_env_def demo_cfg_def changed_item_def unchanged_item_def demo_start_def
  start_state_def restore_checkpoint_def net_train_def net_eval_def

lemmas engine_defs = valid_batch_def test_batch_def confusion_counts_def confusion_matrix_def
  measure3d_def mean_absolute_error_def max_error_sk_def abs_max_def metric_mse_def arr_sub_def
  sk_checked_def abs_errors_def np_maximum_def count_nonzero_def np_sum_def np_sub_def
  and_then_def add_measures_def tally0_def denormalize_val_def denormalize_test_def
  phase_end_def num_truediv_def num_add_def num_mul_def num_sqrt_def mk_int_def mk_float_def
  Let_def

lemma changed_counts: "confusion_counts [0, 1, 1, 0] [0, 1, 0, 1] = ((NpInt 1, NpInt 1, NpInt 1, NpInt 1), [])"
  by (simp add: confusion_counts_def confusion_matrix_def)

lemma unchanged_counts: "confusion_counts [0, 0] [0, 0] = ((PyInt 0, PyInt 0, PyInt 0, PyInt 0), [Print ''Only 0 mask''])"
  by (simp add: confusion_counts_def confusion_matrix_def)

lemma changed_3d: "measure3d [Fin 1, Fin 2, Fin 2, Fin 1] [Fin 2, Fin 3, Fin 3, Fin 2]
   = Inr \<lparr>mean_ae = NpFloat (Fin 1), s_rmse1 = NpFloat (Fin 1), s_rmse2 = NpFloat (Fin 1),
           max_error = NpFloat (Fin 1), mask_max = NpFloat (Fin 2)\<rparr>"
  by (simp add: engine_defs)

lemma unchanged_3d: "measure3d [Fin 0, Fin 0] [Fin 0, Fin 0]
   = Inr \<lparr>mean_ae = NpFloat (Fin 0), s_rmse1 = NpFloat (Fin 0), s_rmse2 = NpFloat NaN,
           max_error = NpFloat (Fin 0), mask_max = NpFloat (Fin 0)\<rparr>"
  by (simp add: engine_defs)


lemma demo_valid_changed:
  "valid_batch demo_env demo_cfg st changed_item (t, lg) =
     Inr (add_measures t (NpInt 1, NpInt 1, NpInt 1, NpInt 1)
            \<lparr>mean_ae = NpFloat (Fin 1), s_rmse1 = NpFloat (Fin 1), s_rmse2 = NpFloat (Fin 1),
             max_error = NpFloat (Fin 1), mask_max = NpFloat (Fin 2)\<rparr>, lg)"
  using changed_counts changed_3d
  by (simp add: valid_batch_def demo_env_def demo_cfg_def changed_item_def denormalize_val_def)

lemma demo_valid_unchanged:
  "valid_batch demo_env demo_cfg st unchanged_item (t, lg) =
     Inr (add_measures t (PyInt 0, PyInt 0, PyInt 0, PyInt 0)
            \<lparr>mean_ae = NpFloat (Fin 0), s_rmse1 = NpFloat (Fin 0), s_rmse2 = NpFloat NaN,
             max_error = NpFloat (Fin 0), mask_max = NpFloat (Fin 0)\<rparr>, lg @ [Print ''Only 0 mask''])"
  using unchanged_counts unchanged_3d
  by (simp add: valid_batch_def demo_env_def demo_cfg_def unchanged_item_def denormalize_val_def)

lemma demo_validation:
  "\<exists>st'. validation_phase demo_env demo_cfg [changed_item, unchanged_item] demo_start =
     Inr (\<lparr>F1 = NpFloat (Fin (1 / 2)), IoU = NpFloat (Fin (1 / 3)), meanMAE = NpFloat (Fin (1 / 2)),
           RMSE1 = NpFloat (Fin (sqrt (1 / 2))), RMSE2 = NpFloat NaN\<rparr>, st')"
  by (simp add: validation_phase_def demo_valid_changed demo_valid_unchanged tally0_def
      add_measures_def phase_end_def num_truediv_def num_add_def num_mul_def num_sqrt_def
      mk_int_def mk_float_def and_then_def Let_def)

lemma demo_test_changed:
  "test_batch demo_env demo_cfg st changed_item (t, lg) =
     Inr (add_measures t (NpInt 1, NpInt 1, NpInt 1, NpInt 1)
            \<lparr>mean_ae = NpFloat (Fin 1), s_rmse1 = NpFloat (Fin 1), s_rmse2 = NpFloat (Fin 1),
             max_error = NpFloat (Fin 1), mask_max = NpFloat (Fin 2)\<rparr>, lg)"
  using changed_counts changed_3d
  by (simp add: test_batch_def demo_env_def demo_cfg_def changed_item_def denormalize_test_def)

lemma demo_test_unchanged:
  "test_batch demo_env demo_cfg st unchanged_item (t, lg) =
     Inr (add_measures t (PyInt 0, PyInt 0, PyInt 0, PyInt 0)
            \<lparr>mean_ae = NpFloat (Fin 0), s_rmse1 = NpFloat (Fin 0), s_rmse2 = NpFloat NaN,
             max_error = NpFloat (Fin 0), mask_max = NpFloat (Fin 0)\<rparr>, lg @ [Print ''Only 0 mask''])"
  using unchanged_counts unchanged_3d
  by (simp add: test_batch_def demo_env_def demo_cfg_def unchanged_item_def denormalize_test_def)

lemmas phase_eval = tally0_def add_measures_def phase_end_def num_truediv_def num_add_def
  num_mul_def num_sqrt_def mk_int_def mk_float_def and_then_def Let_def

lemma demo_test:
  "\<exists>st'. test_phase demo_env demo_cfg [changed_item, unchanged_item] demo_start =
     Inr (\<lparr>F1 = NpFloat (Fin (1 / 2)), IoU = NpFloat (Fin (1 / 3)), meanMAE = NpFloat (Fin (1 / 2)),
           RMSE1 = NpFloat (Fin (sqrt (1 / 2))), RMSE2 = NpFloat NaN\<rparr>, st')"
  by (simp add: test_phase_def demo_test_changed demo_test_unchanged phase_eval)

theorem phase_metrics_closed_form_witness:
  "(\<exists>st'. validation_phase demo_env demo_cfg [changed_item, unchanged_item] demo_start =
      Inr (\<lparr>F1 = NpFloat (Fin (1 / 2)), IoU = NpFloat (Fin (1 / 3)), meanMAE = NpFloat (Fin (1 / 2)),
            RMSE1 = NpFloat (Fin (sqrt (1 / 2))), RMSE2 = NpFloat NaN\<rparr>, st'))
   \<and> (\<exists>ms. map (\<lambda>s. measure3d (mask3d s) (out3d_val demo_env demo_cfg (net_eval demo_start) s))
               [changed_item, unchanged_item] = map Inr ms
          \<and> agrees_with_closed_forms
               \<lparr>F1 = NpFloat (Fin (1 / 2)), IoU = NpFloat (Fin (1 / 3)), meanMAE = NpFloat (Fin (1 / 2)),
                RMSE1 = NpFloat (Fin (sqrt (1 / 2))), RMSE2 = NpFloat NaN\<rparr>
               (map (batch_counts demo_env (net_eval demo_start)) [changed_item, unchanged_item]) ms)
   \<and> (\<exists>st'. test_phase demo_env demo_cfg [changed_item, unchanged_item] demo_start =
      Inr (\<lparr>F1 = NpFloat (Fin (1 / 2)), IoU = NpFloat (Fin (1 / 3)), meanMAE = NpFloat (Fin (1 / 2)),
            RMSE1 = NpFloat (Fin (sqrt (1 / 2))), RMSE2 = NpFloat NaN\<rparr>, st'))
   \<and> (\<exists>ms. map (\<lambda>s. measure3d (mask3d s) (out3d_test demo_env demo_cfg (test_start demo_cfg demo_start) s))
               [changed_item, unchanged_item] = map Inr ms
          \<and> agrees_with_closed_forms
               \<lparr>F1 = NpFloat (Fin (1 / 2)), IoU = NpFloat (Fin (1 / 3)), meanMAE = NpFloat (Fin (1 / 2)),
                RMSE1 = NpFloat (Fin (sqrt (1 / 2))), RMSE2 = NpFloat NaN\<rparr>
               (map (batch_counts demo_env (test_start demo_cfg demo_start)) [changed_item, unchanged_item]) ms)"
proof -
  obtain sv where v: "validation_phase demo_env demo_cfg [changed_item, unchanged_item] demo_start =
      Inr (\<lparr>F1 = NpFloat (Fin (1 / 2)), IoU = NpFloat (Fin (1 / 3)), meanMAE = NpFloat (Fin (1 / 2)),
            RMSE1 = NpFloat (Fin (sqrt (1 / 2))), RMSE2 = NpFloat NaN\<rparr>, sv)"
    using demo_validation by blast
  obtain sx where x: "test_phase demo_env demo_cfg [changed_item, unchanged_item] demo_start =
      Inr (\<lparr>F1 = NpFloat (Fin (1 / 2)), IoU = NpFloat (Fin (1 / 3)), meanMAE = NpFloat (Fin (1 / 2)),
            RMSE1 = NpFloat (Fin (sqrt (1 / 2))), RMSE2 = NpFloat NaN\<rparr>, sx)"
    using demo_test by blast
  show ?thesis
    using phase_metrics_closed_form [THEN conjunct1, rule_format, OF v]
      phase_metrics_closed_form [THEN conjunct2, rule_format, OF x] v x
    by blast
qed

lemma demo_out2d: "out2d_of demo_env st unchanged_item = [0, 0]"
  by (simp add: out2d_of_def demo_env_def unchanged_item_def)

lemma demo_fallback: "takes_fallback [0, 0] [0, 0]"
  by (simp add: takes_fallback_def confusion_matrix_def)



theorem verbose_branch_raises_witness:
  "verbose (demo_cfg\<lparr>verbose := True\<rparr>)
   \<and> test_phase demo_env (demo_cfg\<lparr>verbose := True\<rparr>) [changed_item, unchanged_item] demo_start =
       Inl (NameError ''s_rmse'',
            [Print ''No checkpoints founded'', CallTrain, CallEval, Print '''',
             Formatted ''2D Val'' [NpInt 1, NpInt 1, NpInt 1, NpInt 1]])"
proof -
  have h: "verbose (demo_cfg\<lparr>verbose := True\<rparr>)" by simp
  show ?thesis
    using h changed_counts changed_3d
      verbose_branch_raises [OF h, of "NpInt 1" "NpInt 1" "NpInt 1" "NpInt 1" undefined demo_env
        "test_start (demo_cfg\<lparr>verbose := True\<rparr>) demo_start" changed_item tally0 "[]"
        "[unchanged_item]" demo_start]
    by (simp add: test_phase_def test_start_def test_batch_def demo_defs denormalize_test_def
        verbose_report_def batch_names_def and_then_def)
qed

theorem all_fallback_phase_raises_witness:
  "takes_fallback (mask2d unchanged_item) (out2d_of demo_env (net_eval demo_start) unchanged_item)
   \<and> takes_fallback (mask2d unchanged_item)
        (out2d_of demo_env (test_start demo_cfg demo_start) unchanged_item)
   \<and> validation_phase demo_env demo_cfg [unchanged_item, unchanged_item] demo_start =
       Inl (ZeroDivisionError,
            [Print ''No checkpoints founded'', CallTrain, CallEval, Print ''Only 0 mask'',
             Print ''Only 0 mask''])
   \<and> test_phase demo_env demo_cfg [unchanged_item, unchanged_item] demo_start =
       Inl (ZeroDivisionError,
            [Print ''No checkpoints founded'', CallTrain, CallEval, Print ''Only 0 mask'',
             Print ''Only 0 mask''])"
proof -
  have h: "\<forall>s\<in>set [unchanged_item, unchanged_item].
       takes_fallback (mask2d s) (out2d_of demo_env (net_eval demo_start) s)"
    "\<forall>s\<in>set [unchanged_item, unchanged_item].
       takes_fallback (mask2d s) (out2d_of demo_env (test_start demo_cfg demo_start) s)"
    using demo_fallback by (simp_all add: demo_out2d) (simp_all add: unchanged_item_def)
  show ?thesis
    using h all_fallback_phase_raises [of "[unchanged_item, unchanged_item]" demo_env demo_start demo_cfg]
    by (simp add: validation_phase_def test_phase_def test_start_def demo_valid_unchanged
        demo_test_unchanged phase_eval demo_start_def start_state_def restore_checkpoint_def
        net_train_def net_eval_def)
qed

lemma demo_train:
  "train_phase demo_env demo_cfg [changed_item, changed_item, changed_item] e st =
     Inr ((NpFloat (Fin (4 / 3)), NpFloat (Fin (4 / 3)), NpFloat (Fin (8 / 3))),
          st\<lparr>params := Suc (Suc (params st)),
             trace := trace st @ [TrainStep e (mode st), TrainStep e (mode st),
               Formatted ''Training loss'' [NpFloat (Fin (8 / 3)), NpFloat (Fin (4 / 3)), NpFloat (Fin (4 / 3))]]\<rparr>)"
  by (simp add: train_phase_def batches_3_2 train_batch_def num_add_def num_mul_def
        num_truediv_def mk_float_def mk_int_def Let_def demo_env_def demo_cfg_def)

lemma demo_validation_one:
  "validation_phase demo_env demo_cfg [changed_item] st =
     Inr (\<lparr>F1 = NpFloat (Fin (1 / 2)), IoU = NpFloat (Fin (1 / 3)), meanMAE = NpFloat (Fin 1),
           RMSE1 = NpFloat (Fin 1), RMSE2 = NpFloat (Fin 1)\<rparr>,
          checkpoint_decision
            \<lparr>F1 = NpFloat (Fin (1 / 2)), IoU = NpFloat (Fin (1 / 3)), meanMAE = NpFloat (Fin 1),
             RMSE1 = NpFloat (Fin 1), RMSE2 = NpFloat (Fin 1)\<rparr>
            (st\<lparr>mode := EvalMode,
                trace := trace st @ [CallEval, Formatted ''Validation metrics''
                  [NpFloat (Fin 50), NpFloat (Fin (100 / 3)), NpFloat (Fin 1), NpFloat (Fin 1), NpFloat (Fin 1)]]\<rparr>))"
  by (simp add: validation_phase_def demo_valid_changed phase_eval net_eval_def metrics_line_def)

lemma demo_epoch1:
  "epoch_body demo_env demo_cfg [changed_item, changed_item, changed_item] [changed_item] 1 demo_start =
   Inr \<lparr>params = Suc (Suc 0), mode = EvalMode, best2dmetric = NpFloat (Fin (1 / 2)),
        best3dmetric = NpFloat (Fin 1),
        files = (\<lambda>f. None)(''2dbestnet.pth'' \<mapsto> Suc (Suc 0), ''3dbestnet.pth'' \<mapsto> Suc (Suc 0)),
        trace = [Print ''No checkpoints founded'', CallTrain,
          TrainStep 1 TrainMode, TrainStep 1 TrainMode,
          Formatted ''Training loss'' [NpFloat (Fin (8 / 3)), NpFloat (Fin (4 / 3)), NpFloat (Fin (4 / 3))],
          CallEval,
          Formatted ''Validation metrics''
            [NpFloat (Fin 50), NpFloat (Fin (100 / 3)), NpFloat (Fin 1), NpFloat (Fin 1), NpFloat (Fin 1)],
          Print ''Best 2D model saved!'', Print ''Best 3D model saved!'',
          Stats 1 [NpFloat (Fin (4 / 3)), NpFloat (Fin (4 / 3)), NpFloat (Fin (8 / 3)), NpFloat (Fin 1),
                   NpFloat (Fin 1), NpFloat (Fin 50), NpFloat (Fin (100 / 3))]]\<rparr>"
  by (simp add: epoch_body_def demo_train demo_validation_one checkpoint_decision_def
        demo_start_def start_state_def restore_checkpoint_def net_train_def num_less_def
        num_mul_def mk_float_def mk_int_def Let_def)


lemma demo_range: "py_range 1 (nepochs demo_cfg) = [1, 2]"
  by (simp add: py_range_def demo_cfg_def upto.simps)

lemma demo_run:
  "\<exists>st. for_each (epoch_body demo_env demo_cfg [changed_item, changed_item, changed_item] [changed_item])
          (py_range 1 (nepochs demo_cfg)) demo_start = Inr st
     \<and> params st = Suc (Suc (Suc (Suc 0))) \<and> mode st = EvalMode
     \<and> best2dmetric st = NpFloat (Fin (1 / 2)) \<and> best3dmetric st = NpFloat (Fin 1)
     \<and> files st ''2dbestnet.pth'' = Some (Suc (Suc 0)) \<and> files st ''3dbestnet.pth'' = Some (Suc (Suc 0))
     \<and> filter (\<lambda>x. \<not> is_output x) (trace st) =
          [CallTrain, TrainStep 1 TrainMode, TrainStep 1 TrainMode, CallEval,
           TrainStep 2 EvalMode, TrainStep 2 EvalMode, CallEval]"
  unfolding demo_range
  by (simp add: demo_epoch1)
    (simp add: epoch_body_def demo_train demo_validation_one checkpoint_decision_def
        num_less_def num_mul_def mk_float_def mk_int_def Let_def)


lemma demo_training_run:
  "training_run demo_env demo_cfg [changed_item, changed_item, changed_item] [changed_item] 0 (\<lambda>f. None)
     = for_each (epoch_body demo_env demo_cfg [changed_item, changed_item, changed_item] [changed_item])
          (py_range 1 (nepochs demo_cfg)) demo_start"
  by (simp add: training_run_def demo_start_def)

theorem checkpoint_policy_witness:
  "(\<exists>m st'. validation_phase demo_env demo_cfg [changed_item, unchanged_item] demo_start = Inr (m, st')
        \<and> F1 m = NpFloat (Fin (1 / 2)) \<and> RMSE2 m = NpFloat NaN
        \<and> best2dmetric demo_start = PyInt 0 \<and> best3dmetric demo_start = PyInt 1000000
        \<and> best2dmetric st' = NpFloat (Fin (1 / 2)) \<and> best3dmetric st' = PyInt 1000000
        \<and> files st' ''2dbestnet.pth'' = Some 0 \<and> files st' ''3dbestnet.pth'' = None)
   \<and> (\<exists>st''. for_each (epoch_body demo_env demo_cfg [changed_item, changed_item, changed_item] [changed_item])
               (py_range 1 (nepochs demo_cfg)) demo_start = Inr st''
        \<and> best2dmetric st'' = NpFloat (Fin (1 / 2)) \<and> best3dmetric st'' = NpFloat (Fin 1)
        \<and> files st'' ''2dbestnet.pth'' = Some (Suc (Suc 0))
        \<and> files st'' ''3dbestnet.pth'' = Some (Suc (Suc 0))
        \<and> params st'' = Suc (Suc (Suc (Suc 0)))
        \<and> num_le (best2dmetric demo_start) (best2dmetric st'')
        \<and> num_le (best3dmetric st'') (best3dmetric demo_start))"
proof -
  obtain sv where v: "validation_phase demo_env demo_cfg [changed_item, unchanged_item] demo_start =
      Inr (\<lparr>F1 = NpFloat (Fin (1 / 2)), IoU = NpFloat (Fin (1 / 3)), meanMAE = NpFloat (Fin (1 / 2)),
            RMSE1 = NpFloat (Fin (sqrt (1 / 2))), RMSE2 = NpFloat NaN\<rparr>, sv)"
    using demo_validation by blast
  obtain sr where r: "for_each (epoch_body demo_env demo_cfg [changed_item, changed_item, changed_item] [changed_item])
          (py_range 1 (nepochs demo_cfg)) demo_start = Inr sr"
    and sr: "params sr = Suc (Suc (Suc (Suc 0)))"
      "best2dmetric sr = NpFloat (Fin (1 / 2))" "best3dmetric sr = NpFloat (Fin 1)"
      "files sr ''2dbestnet.pth'' = Some (Suc (Suc 0))" "files sr ''3dbestnet.pth'' = Some (Suc (Suc 0))"
    using demo_run by blast
  have start: "best2dmetric demo_start = PyInt 0" "best3dmetric demo_start = PyInt 1000000"
    "params demo_start = 0" "files demo_start = (\<lambda>f. None)"
    by (simp_all add: demo_start_def start_state_def restore_checkpoint_def net_train_def)
  have first: "best2dmetric sv = NpFloat (Fin (1 / 2)) \<and> best3dmetric sv = PyInt 1000000
        \<and> files sv ''2dbestnet.pth'' = Some 0 \<and> files sv ''3dbestnet.pth'' = None"
    using checkpoint_policy [THEN conjunct1, rule_format, OF v]
    by (simp add: start num_less_def)
  have second: "num_le (best2dmetric demo_start) (best2dmetric sr)
        \<and> num_le (best3dmetric sr) (best3dmetric demo_start)"
    using checkpoint_policy [THEN conjunct2, rule_format, OF r] .
  show ?thesis
    using v r sr start first second by auto
qed

theorem train_mode_first_epoch_only_witness:
  "filter (\<lambda>x. \<not> is_output x)
      (outcome_trace (training_run demo_env demo_cfg [changed_item, changed_item, changed_item]
                        [changed_item] 0 (\<lambda>f. None))) =
     [CallTrain, TrainStep 1 TrainMode, TrainStep 1 TrainMode, CallEval,
      TrainStep 2 EvalMode, TrainStep 2 EvalMode, CallEval]
   \<and> TrainStep 2 EvalMode \<in> set (outcome_trace (training_run demo_env demo_cfg
                        [changed_item, changed_item, changed_item] [changed_item] 0 (\<lambda>f. None)))
   \<and> 2 \<le> nepochs demo_cfg
   \<and> (\<exists>st. training_run demo_env demo_cfg [changed_item, changed_item, changed_item]
                        [changed_item] 0 (\<lambda>f. None) = Inr st \<and> mode st = EvalMode)"
proof -
  let ?run = "training_run demo_env demo_cfg [changed_item, changed_item, changed_item]
                        [changed_item] 0 (\<lambda>f. None)"
  obtain sr where r: "?run = Inr sr"
    and f: "filter (\<lambda>x. \<not> is_output x) (trace sr) =
          [CallTrain, TrainStep 1 TrainMode, TrainStep 1 TrainMode, CallEval,
           TrainStep 2 EvalMode, TrainStep 2 EvalMode, CallEval]"
    using demo_run unfolding demo_training_run by blast
  have n: "2 \<le> nepochs demo_cfg"
    by (simp add: demo_cfg_def)
  from train_mode_first_epoch_only [of demo_env demo_cfg "[changed_item, changed_item, changed_item]"
      "[changed_item]" 0 "\<lambda>f. None"]
  have m: "mode sr = EvalMode"
    using r n by blast
  have "TrainStep 2 EvalMode \<in> set (filter (\<lambda>x. \<not> is_output x) (trace sr))"
    unfolding f by simp
  then have "TrainStep 2 EvalMode \<in> set (trace sr)"
    by simp
  then show ?thesis
    using r f n m by (simp add: outcome_trace_def)
qed

end
